theory Spec2Isabelle
  imports Main "HOL-Library.Word"
begin

section \<open>DiscIO/Filesystem.cpp\<close>

text \<open>
  A volume is an opaque object; a \<open>const IVolume*\<close> is a volume or the null pointer
  (\<open>None\<close>). \<open>IFileSystem\<close> keeps the volume it was constructed over in \<open>m_rVolume\<close>.
  The class \<open>CFileSystemGCWii\<close> (DiscIO/FileSystemGCWii.h) is not part of the modelled
  sources: what its constructor finds out about the volume is the parameter \<open>detect\<close>,
  stored in the field that \<open>IsValid\<close> reads.
\<close>

type_synonym IVolume = nat

record IFileSystem =
  m_rVolume :: IVolume
  m_Valid :: bool

definition IFileSystem_ctor :: "IVolume \<Rightarrow> IFileSystem" where
  "IFileSystem_ctor rVolume = \<lparr>m_rVolume = rVolume, m_Valid = False\<rparr>"

definition CFileSystemGCWii_ctor :: "(IVolume \<Rightarrow> bool) \<Rightarrow> IVolume \<Rightarrow> IFileSystem" where
  "CFileSystemGCWii_ctor detect rVolume = (IFileSystem_ctor rVolume)\<lparr>m_Valid := detect rVolume\<rparr>"

definition IsValid :: "IFileSystem \<Rightarrow> bool" where
  "IsValid fs = m_Valid fs"

text \<open>\<open>std::make_unique\<close> returns a non-null pointer (it throws when allocation fails).\<close>

definition make_unique_CFileSystemGCWii :: "(IVolume \<Rightarrow> bool) \<Rightarrow> IVolume \<Rightarrow> IFileSystem option" where
  "make_unique_CFileSystemGCWii detect volume = Some (CFileSystemGCWii_ctor detect volume)"

definition CreateFileSystem :: "(IVolume \<Rightarrow> bool) \<Rightarrow> IVolume option \<Rightarrow> IFileSystem option" where
  "CreateFileSystem detect volume =
     (case volume of
        None \<Rightarrow> None
      | Some v \<Rightarrow>
          (case make_unique_CFileSystemGCWii detect v of
             None \<Rightarrow> None
           | Some filesystem \<Rightarrow> if \<not> IsValid filesystem then None else Some filesystem))"

section \<open>VideoBackends/D3D12/ShaderCache.cpp: data\<close>

type_synonym u8 = "8 word"

text \<open>
  The shader UID classes (VideoCommon) are not part of the modelled sources. A UID is an
  opaque key with equality; it is modelled as a natural number, and the value-initialised
  UID \<open>{}\<close> is \<open>0\<close>. Whether a geometry UID is a passthrough one is a parameter
  (\<open>IsPassthrough\<close> in the environment below).
\<close>

type_synonym GeometryShaderUid = nat
type_synonym PixelShaderUid = nat
type_synonym VertexShaderUid = nat

datatype D3D12_PRIMITIVE_TOPOLOGY_TYPE =
  D3D12_PRIMITIVE_TOPOLOGY_TYPE_TRIANGLE
| D3D12_PRIMITIVE_TOPOLOGY_TYPE_LINE
| D3D12_PRIMITIVE_TOPOLOGY_TYPE_POINT

text \<open>
  \<open>D3D12_SHADER_BYTECODE\<close> is a pointer to the bytes and their number. The bytes a blob
  holds never change while a pointer to them is kept, so the pointer is modelled by the
  bytes themselves; \<open>None\<close> is the null pointer.
\<close>

record D3D12_SHADER_BYTECODE =
  pShaderBytecode :: "u8 list option"
  BytecodeLength :: nat

definition zero_bytecode :: D3D12_SHADER_BYTECODE where
  "zero_bytecode = \<lparr>pShaderBytecode = None, BytecodeLength = 0\<rparr>"

record ByteCodeCacheEntry =
  m_shader_bytecode :: D3D12_SHADER_BYTECODE
  m_compiled :: bool
  m_initialized :: bool
  code :: string

definition ByteCodeCacheEntry_ctor :: ByteCodeCacheEntry where
  "ByteCodeCacheEntry_ctor =
     \<lparr>m_shader_bytecode = zero_bytecode, m_compiled = False, m_initialized = False, code = []\<rparr>"

text \<open>\<open>std::atomic_flag::test_and_set\<close>: sets the flag and returns its previous value.\<close>

definition test_and_set :: "ByteCodeCacheEntry \<Rightarrow> bool \<times> ByteCodeCacheEntry" where
  "test_and_set e = (m_initialized e, e\<lparr>m_initialized := True\<rparr>)"

text \<open>
  A \<open>D3DBlob\<close> owns a copy of its bytes; \<open>Data()\<close> points to them and \<open>Size()\<close> is
  their number.
\<close>

record D3DBlob =
  blob_data :: "u8 list"

definition D3DBlob_ctor :: "u8 list \<Rightarrow> D3DBlob" where
  "D3DBlob_ctor bytes = \<lparr>blob_data = bytes\<rparr>"

definition Data :: "D3DBlob \<Rightarrow> u8 list option" where
  "Data b = Some (blob_data b)"

definition Size :: "D3DBlob \<Rightarrow> nat" where
  "Size b = length (blob_data b)"

text \<open>
  A \<open>ByteCodeCacheEntry*\<close> points to the static passthrough entry or into one of the three
  maps; \<open>std::unordered_map\<close> never moves an element, so the element of a key is named
  by the key.
\<close>

datatype entry_ptr =
  PassEntry
| GsEntry GeometryShaderUid
| PsEntry PixelShaderUid
| VsEntry VertexShaderUid

datatype stage = Geometry | Pixel | Vertex

datatype D3DCOMPILE =
  D3DCOMPILE_SKIP_VALIDATION
| D3DCOMPILE_OPTIMIZATION_LEVEL3
| D3DCOMPILE_ENABLE_BACKWARDS_COMPATIBILITY

text \<open>
  The result handler of a work unit is one of the three lambdas of the UID-change
  handlers, with the UID and the entry pointer it captured; a new unit has none. The
  compiler sets \<open>cresult\<close> (here: whether it \<open>SUCCEEDED\<close>) and either the bytecode
  or the diagnostic text of the unit.
\<close>

datatype ResultHandler =
  GSResult GeometryShaderUid entry_ptr
| PSResult PixelShaderUid entry_ptr
| VSResult VertexShaderUid entry_ptr

record ShaderCompilerWorkUnit =
  wu_code :: string
  codesize :: nat
  entrypoint :: string
  flags :: "D3DCOMPILE set"
  target :: string
  resultHandler :: "ResultHandler option"
  cresult :: bool
  shaderbytecode :: "u8 list"
  error :: string

text \<open>What the program does that is visible outside its own variables, in order.\<close>

datatype action =
  LockAcquire
| LockRelease
| CacheLookup stage nat
| CompileShaderAsync stage nat
| DiskAppend stage nat
| Drain

text \<open>
  \<open>PanicAlert\<close> formats like \<open>printf\<close>. What is passed for a \<open>%s\<close> is either a
  pointer to characters, whose text the message shows, or a \<open>std::string\<close> object
  passed by value, for which the message does not show the string: the text it shows
  there is not defined. An alert is recorded with the stage of its message and the three
  arguments of its \<open>%s\<close> places.
\<close>

datatype fmt_arg = CStr string | StdString string

datatype alert = PanicAlert stage fmt_arg string string

text \<open>The file an alert's message names, if it names one.\<close>

fun alert_file :: "alert \<Rightarrow> string option" where
  "alert_file (PanicAlert st (CStr name) version msg) = Some name"
| "alert_file (PanicAlert st (StdString name) version msg) = None"

record state =
  s_current_primitive_topology :: D3D12_PRIMITIVE_TOPOLOGY_TYPE
  s_pass_entry :: ByteCodeCacheEntry
  gs_bytecode_cache :: "GeometryShaderUid \<rightharpoonup> ByteCodeCacheEntry"
  ps_bytecode_cache :: "PixelShaderUid \<rightharpoonup> ByteCodeCacheEntry"
  vs_bytecode_cache :: "VertexShaderUid \<rightharpoonup> ByteCodeCacheEntry"
  s_shader_blob_list :: "D3DBlob list"
  s_gs_disk_cache :: "(GeometryShaderUid \<times> u8 list) list"
  s_ps_disk_cache :: "(PixelShaderUid \<times> u8 list) list"
  s_vs_disk_cache :: "(VertexShaderUid \<times> u8 list) list"
  s_last_geometry_shader_bytecode :: "entry_ptr option"
  s_last_pixel_shader_bytecode :: "entry_ptr option"
  s_last_vertex_shader_bytecode :: "entry_ptr option"
  s_last_geometry_shader_uid :: GeometryShaderUid
  s_last_pixel_shader_uid :: PixelShaderUid
  s_last_vertex_shader_uid :: VertexShaderUid
  s_last_cpu_geometry_shader_uid :: GeometryShaderUid
  s_last_cpu_pixel_shader_uid :: PixelShaderUid
  s_last_cpu_vertex_shader_uid :: VertexShaderUid
  in_flight :: "ShaderCompilerWorkUnit list"
  finished :: "ShaderCompilerWorkUnit list"
  m_dirty_pso :: bool
  gs_num_failures :: nat
  ps_num_failures :: nat
  vs_num_failures :: nat
  dump_files :: "(string \<times> string) list"
  alerts :: "alert list"
  szTemp_overrun :: bool
  log :: "action list"

section \<open>By-UID accessors\<close>

text \<open>
  \<open>operator[]\<close> of \<open>std::unordered_map\<close>: the element of the key, default-constructed
  and inserted first when the key is absent.
\<close>

definition index_cache :: "(nat \<rightharpoonup> ByteCodeCacheEntry) \<Rightarrow> nat \<Rightarrow> ByteCodeCacheEntry \<times> (nat \<rightharpoonup> ByteCodeCacheEntry)" where
  "index_cache cache uid =
     (case cache uid of
        Some e \<Rightarrow> (e, cache)
      | None \<Rightarrow> (ByteCodeCacheEntry_ctor, cache(uid \<mapsto> ByteCodeCacheEntry_ctor)))"

definition GetGeometryShaderFromUid :: "GeometryShaderUid \<Rightarrow> state \<Rightarrow> D3D12_SHADER_BYTECODE \<times> state" where
  "GetGeometryShaderFromUid uid s =
     (let (e, c) = index_cache (gs_bytecode_cache s) uid
      in (m_shader_bytecode e, s\<lparr>gs_bytecode_cache := c, log := log s @ [CacheLookup Geometry uid]\<rparr>))"

definition GetPixelShaderFromUid :: "PixelShaderUid \<Rightarrow> state \<Rightarrow> D3D12_SHADER_BYTECODE \<times> state" where
  "GetPixelShaderFromUid uid s =
     (let (e, c) = index_cache (ps_bytecode_cache s) uid
      in (m_shader_bytecode e, s\<lparr>ps_bytecode_cache := c, log := log s @ [CacheLookup Pixel uid]\<rparr>))"

definition GetVertexShaderFromUid :: "VertexShaderUid \<Rightarrow> state \<Rightarrow> D3D12_SHADER_BYTECODE \<times> state" where
  "GetVertexShaderFromUid uid s =
     (let (e, c) = index_cache (vs_bytecode_cache s) uid
      in (m_shader_bytecode e, s\<lparr>vs_bytecode_cache := c, log := log s @ [CacheLookup Vertex uid]\<rparr>))"

section \<open>The environment of the shader cache\<close>

type_synonym u32 = "32 word"
type_synonym XFMemory = nat
type_synonym BPMemory = nat
type_synonym DSTALPHA_MODE = nat

text \<open>
  What the shader cache uses and the modelled sources do not define: the configuration
  flags, whether \<open>_DEBUG\<close> or \<open>DEBUGFAST\<close> is defined, the primitive type constants, the
  UID and source generators of VideoCommon (pure functions of the graphics state), the
  shader model strings, the dump directory, the size \<open>MAX_PATH\<close> of a path buffer and
  the HLSL compiler itself (source, entry point, flags and target to either the
  diagnostic text or the bytecode).
\<close>

record env =
  g_Config_bEnableShaderDebugging :: bool
  g_ActiveConfig_bEnableShaderDebugging :: bool
  g_ActiveConfig_bFullAsyncShaderCompilation :: bool
  DEBUG_BUILD :: bool
  IsPassthrough :: "GeometryShaderUid \<Rightarrow> bool"
  PRIMITIVE_TRIANGLES :: u32
  PRIMITIVE_LINES :: u32
  PRIMITIVE_POINTS :: u32
  GetGeometryShaderUid :: "u32 \<Rightarrow> XFMemory \<Rightarrow> u32 \<Rightarrow> GeometryShaderUid"
  GetPixelShaderUidD3D11 :: "DSTALPHA_MODE \<Rightarrow> u32 \<Rightarrow> XFMemory \<Rightarrow> BPMemory \<Rightarrow> PixelShaderUid"
  GetVertexShaderUidD3D11 :: "u32 \<Rightarrow> XFMemory \<Rightarrow> BPMemory \<Rightarrow> VertexShaderUid"
  GenerateGeometryShaderCode :: "u32 \<Rightarrow> XFMemory \<Rightarrow> u32 \<Rightarrow> string"
  GeneratePixelShaderCodeD3D11 :: "DSTALPHA_MODE \<Rightarrow> u32 \<Rightarrow> XFMemory \<Rightarrow> BPMemory \<Rightarrow> string"
  GenerateVertexShaderCodeD3D11 :: "u32 \<Rightarrow> XFMemory \<Rightarrow> BPMemory \<Rightarrow> string"
  GeometryShaderVersionString :: string
  PixelShaderVersionString :: string
  VertexShaderVersionString :: string
  D_DUMP_IDX :: string
  MAX_PATH :: nat
  D3DCompile :: "string \<Rightarrow> string \<Rightarrow> D3DCOMPILE set \<Rightarrow> string \<Rightarrow> string + u8 list"

section \<open>The asynchronous compiler\<close>

text \<open>
  Modelled from the spec: \<open>HLSLAsyncCompiler\<close> (VideoCommon/HLSLCompiler.h) is not part
  of the modelled sources. \<open>NewUnit\<close> hands out an empty work unit;
  \<open>CompileShaderAsync\<close> enqueues a unit and returns before it is compiled; a background
  thread compiles enqueued units in order and moves them to the finished ones;
  \<open>ProcCompilationResults\<close> calls the result handler of every unit that finished since
  the last call.
\<close>

definition NewUnit :: ShaderCompilerWorkUnit where
  "NewUnit =
     \<lparr>wu_code = [], codesize = 0, entrypoint = [], flags = {}, target = [],
      resultHandler = None, cresult = False, shaderbytecode = [], error = []\<rparr>"

definition unit_stage_uid :: "ShaderCompilerWorkUnit \<Rightarrow> (stage \<times> nat) option" where
  "unit_stage_uid w =
     (case resultHandler w of
        None \<Rightarrow> None
      | Some (GSResult uid entry) \<Rightarrow> Some (Geometry, uid)
      | Some (PSResult uid entry) \<Rightarrow> Some (Pixel, uid)
      | Some (VSResult uid entry) \<Rightarrow> Some (Vertex, uid))"

definition CompileShaderAsync_call :: "stage \<Rightarrow> nat \<Rightarrow> ShaderCompilerWorkUnit \<Rightarrow> state \<Rightarrow> state" where
  "CompileShaderAsync_call st uid wunit s =
     s\<lparr>in_flight := in_flight s @ [wunit], log := log s @ [CompileShaderAsync st uid]\<rparr>"

definition compile_unit :: "env \<Rightarrow> ShaderCompilerWorkUnit \<Rightarrow> ShaderCompilerWorkUnit" where
  "compile_unit env w =
     (case D3DCompile env (wu_code w) (entrypoint w) (flags w) (target w) of
        Inr bytes \<Rightarrow> w\<lparr>cresult := True, shaderbytecode := bytes\<rparr>
      | Inl msg \<Rightarrow> w\<lparr>cresult := False, error := msg\<rparr>)"

text \<open>The background thread finishes the first \<open>n\<close> enqueued units.\<close>

definition compiler_thread :: "env \<Rightarrow> nat \<Rightarrow> state \<Rightarrow> state" where
  "compiler_thread env n s =
     s\<lparr>in_flight := drop n (in_flight s),
       finished := finished s @ map (compile_unit env) (take n (in_flight s))\<rparr>"

section \<open>Entries behind pointers\<close>

definition deref :: "state \<Rightarrow> entry_ptr \<Rightarrow> ByteCodeCacheEntry option" where
  "deref s p =
     (case p of
        PassEntry \<Rightarrow> Some (s_pass_entry s)
      | GsEntry uid \<Rightarrow> gs_bytecode_cache s uid
      | PsEntry uid \<Rightarrow> ps_bytecode_cache s uid
      | VsEntry uid \<Rightarrow> vs_bytecode_cache s uid)"

definition upd_map :: "(nat \<rightharpoonup> ByteCodeCacheEntry) \<Rightarrow> nat \<Rightarrow> (ByteCodeCacheEntry \<Rightarrow> ByteCodeCacheEntry) \<Rightarrow> (nat \<rightharpoonup> ByteCodeCacheEntry)" where
  "upd_map cache uid f = (case cache uid of None \<Rightarrow> cache | Some e \<Rightarrow> cache(uid \<mapsto> f e))"

text \<open>A write through an entry pointer; a pointer to an element that is gone writes nothing.\<close>

definition upd_entry :: "entry_ptr \<Rightarrow> (ByteCodeCacheEntry \<Rightarrow> ByteCodeCacheEntry) \<Rightarrow> state \<Rightarrow> state" where
  "upd_entry p f s =
     (case p of
        PassEntry \<Rightarrow> s\<lparr>s_pass_entry := f (s_pass_entry s)\<rparr>
      | GsEntry uid \<Rightarrow> s\<lparr>gs_bytecode_cache := upd_map (gs_bytecode_cache s) uid f\<rparr>
      | PsEntry uid \<Rightarrow> s\<lparr>ps_bytecode_cache := upd_map (ps_bytecode_cache s) uid f\<rparr>
      | VsEntry uid \<Rightarrow> s\<lparr>vs_bytecode_cache := upd_map (vs_bytecode_cache s) uid f\<rparr>)"

definition publish :: "D3DBlob \<Rightarrow> ByteCodeCacheEntry \<Rightarrow> ByteCodeCacheEntry" where
  "publish shaderBuffer e =
     e\<lparr>m_shader_bytecode :=
         (m_shader_bytecode e)\<lparr>pShaderBytecode := Data shaderBuffer, BytecodeLength := Size shaderBuffer\<rparr>,
       m_compiled := True\<rparr>"

definition PushByteCode :: "entry_ptr \<Rightarrow> D3DBlob \<Rightarrow> state \<Rightarrow> state" where
  "PushByteCode entry shaderBuffer s =
     upd_entry entry (publish shaderBuffer)
       (s\<lparr>s_shader_blob_list := s_shader_blob_list s @ [shaderBuffer]\<rparr>)"

section \<open>Init, Clear and the replay of the disk caches\<close>

definition cache_of :: "stage \<Rightarrow> state \<Rightarrow> (nat \<rightharpoonup> ByteCodeCacheEntry)" where
  "cache_of st s =
     (case st of
        Geometry \<Rightarrow> gs_bytecode_cache s
      | Pixel \<Rightarrow> ps_bytecode_cache s
      | Vertex \<Rightarrow> vs_bytecode_cache s)"

definition set_cache :: "stage \<Rightarrow> (nat \<rightharpoonup> ByteCodeCacheEntry) \<Rightarrow> state \<Rightarrow> state" where
  "set_cache st c s =
     (case st of
        Geometry \<Rightarrow> s\<lparr>gs_bytecode_cache := c\<rparr>
      | Pixel \<Rightarrow> s\<lparr>ps_bytecode_cache := c\<rparr>
      | Vertex \<Rightarrow> s\<lparr>vs_bytecode_cache := c\<rparr>)"

text \<open>
  \<open>InsertByteCode<UidType, ShaderCacheType>(uid, shader_cache, bytecode_blob)\<close>; the
  cache the template is instantiated with is named by its stage.
\<close>

definition InsertByteCode :: "stage \<Rightarrow> nat \<Rightarrow> D3DBlob \<Rightarrow> state \<Rightarrow> state" where
  "InsertByteCode st uid bytecode_blob s =
     (let s1 = s\<lparr>s_shader_blob_list := s_shader_blob_list s @ [bytecode_blob]\<rparr>;
          (e, c) = index_cache (cache_of st s1) uid;
          e1 = publish bytecode_blob e;
          e2 = snd (test_and_set e1)
      in set_cache st (c(uid \<mapsto> e2))
           (s1\<lparr>log := log s1 @ [LockAcquire, CacheLookup st uid, LockRelease]\<rparr>))"

definition ShaderCacheInserter_Read :: "stage \<Rightarrow> nat \<Rightarrow> u8 list \<Rightarrow> state \<Rightarrow> state" where
  "ShaderCacheInserter_Read st key val s = InsertByteCode st key (D3DBlob_ctor val) s"

text \<open>
  Modelled from the spec: \<open>LinearDiskCache\<close> (Common/LinearDiskCache.h) is not part of
  the modelled sources. A disk cache is the sequence of the (UID, bytecode) records of
  its file, a missing or unreadable file being the empty sequence; \<open>OpenAndRead\<close> passes
  every record to the reader, in the file's order, and \<open>Append\<close> adds one record at the
  end.
\<close>

definition OpenAndRead :: "stage \<Rightarrow> (nat \<times> u8 list) list \<Rightarrow> state \<Rightarrow> state" where
  "OpenAndRead st records s = fold (\<lambda>(key, val). ShaderCacheInserter_Read st key val) records s"

definition Clear :: "state \<Rightarrow> state" where
  "Clear s = s"

definition Init :: "env \<Rightarrow> state \<Rightarrow> state" where
  "Init env s =
     (let s0 = s\<lparr>s_pass_entry := snd (test_and_set ((s_pass_entry s)\<lparr>m_compiled := True\<rparr>)),
                 s_last_geometry_shader_bytecode := None,
                 s_last_pixel_shader_bytecode := None,
                 s_last_vertex_shader_bytecode := None,
                 s_last_geometry_shader_uid := 0,
                 s_last_pixel_shader_uid := 0,
                 s_last_vertex_shader_uid := 0,
                 s_last_cpu_geometry_shader_uid := 0,
                 s_last_cpu_pixel_shader_uid := 0,
                 s_last_cpu_vertex_shader_uid := 0,
                 log := log s @ [LockRelease]\<rparr>;
          s1 = OpenAndRead Geometry (s_gs_disk_cache s0) s0;
          s2 = OpenAndRead Pixel (s_ps_disk_cache s1) s1;
          s3 = OpenAndRead Vertex (s_vs_disk_cache s2) s2
      in if g_Config_bEnableShaderDebugging env then Clear s3 else s3)"

section \<open>The result handlers\<close>

text \<open>
  The geometry handler formats the name of its dump file with \<open>sprintf\<close> into
  \<open>char szTemp[MAX_PATH]\<close>: the name and its terminating zero fit when the name is
  shorter than \<open>MAX_PATH\<close>. A longer name is written past the end of the buffer, and
  what the program does from there on is not defined: the model records the overrun in
  \<open>szTemp_overrun\<close> and takes no further step of the handler. The pixel and the vertex
  handlers build the name as a \<open>std::string\<close>, of any length, and pass that object to the
  \<open>%s\<close> of \<open>PanicAlert\<close>; the geometry handler passes the character buffer.
\<close>

text \<open>\<open>%04i\<close> of a counter that starts at zero: decimal, at least four digits.\<close>

fun dec :: "nat \<Rightarrow> string" where
  "dec n = (if n < 10 then [''0123456789'' ! n] else dec (n div 10) @ [''0123456789'' ! (n mod 10)])"

declare dec.simps [simp del]

definition fmt_04i :: "nat \<Rightarrow> string" where
  "fmt_04i n = replicate (4 - length (dec n)) (CHR ''0'') @ dec n"

definition set_code :: "string \<Rightarrow> ByteCodeCacheEntry \<Rightarrow> ByteCodeCacheEntry" where
  "set_code c e = e\<lparr>code := c\<rparr>"

definition GS_ResultHandler :: "env \<Rightarrow> GeometryShaderUid \<Rightarrow> entry_ptr \<Rightarrow> ShaderCompilerWorkUnit \<Rightarrow> state \<Rightarrow> state" where
  "GS_ResultHandler env gs_uid entry wunit s =
     (if cresult wunit then
        let shaderBuffer = D3DBlob_ctor (shaderbytecode wunit);
            s1 = s\<lparr>s_gs_disk_cache := s_gs_disk_cache s @ [(gs_uid, blob_data shaderBuffer)],
                   log := log s @ [DiskAppend Geometry gs_uid]\<rparr>;
            s2 = PushByteCode entry shaderBuffer s1
        in if DEBUG_BUILD env \<and> g_ActiveConfig_bEnableShaderDebugging env
           then upd_entry entry (set_code (wu_code wunit)) s2 else s2
      else
        let szTemp = D_DUMP_IDX env @ ''bad_gs_'' @ fmt_04i (gs_num_failures s) @ ''.txt''
        in if length szTemp < MAX_PATH env
           then s\<lparr>gs_num_failures := gs_num_failures s + 1,
                  dump_files := dump_files s @ [(szTemp, wu_code wunit @ error wunit)],
                  alerts := alerts s @ [PanicAlert Geometry (CStr szTemp) (GeometryShaderVersionString env) (error wunit)]\<rparr>
           else s\<lparr>gs_num_failures := gs_num_failures s + 1, szTemp_overrun := True\<rparr>)"

definition PS_ResultHandler :: "env \<Rightarrow> PixelShaderUid \<Rightarrow> entry_ptr \<Rightarrow> ShaderCompilerWorkUnit \<Rightarrow> state \<Rightarrow> state" where
  "PS_ResultHandler env ps_uid entry wunit s =
     (if cresult wunit then
        let shaderBuffer = D3DBlob_ctor (shaderbytecode wunit);
            s1 = s\<lparr>s_ps_disk_cache := s_ps_disk_cache s @ [(ps_uid, blob_data shaderBuffer)],
                   log := log s @ [DiskAppend Pixel ps_uid]\<rparr>;
            s2 = PushByteCode entry shaderBuffer s1
        in if DEBUG_BUILD env \<and> g_ActiveConfig_bEnableShaderDebugging env
           then upd_entry entry (set_code (wu_code wunit)) s2 else s2
      else
        let filename = D_DUMP_IDX env @ ''bad_ps_'' @ fmt_04i (ps_num_failures s) @ ''.txt''
        in s\<lparr>ps_num_failures := ps_num_failures s + 1,
             dump_files := dump_files s @ [(filename, wu_code wunit @ error wunit)],
             alerts := alerts s @ [PanicAlert Pixel (StdString filename) (PixelShaderVersionString env) (error wunit)]\<rparr>)"

definition VS_ResultHandler :: "env \<Rightarrow> VertexShaderUid \<Rightarrow> entry_ptr \<Rightarrow> ShaderCompilerWorkUnit \<Rightarrow> state \<Rightarrow> state" where
  "VS_ResultHandler env vs_uid entry wunit s =
     (if cresult wunit then
        let shaderBuffer = D3DBlob_ctor (shaderbytecode wunit);
            s1 = s\<lparr>s_vs_disk_cache := s_vs_disk_cache s @ [(vs_uid, blob_data shaderBuffer)],
                   log := log s @ [DiskAppend Vertex vs_uid]\<rparr>;
            s2 = PushByteCode entry shaderBuffer s1
        in if DEBUG_BUILD env \<and> g_ActiveConfig_bEnableShaderDebugging env
           then upd_entry entry (set_code (wu_code wunit)) s2 else s2
      else
        let filename = D_DUMP_IDX env @ ''bad_vs_'' @ fmt_04i (vs_num_failures s) @ ''.txt''
        in s\<lparr>vs_num_failures := vs_num_failures s + 1,
             dump_files := dump_files s @ [(filename, wu_code wunit)],
             alerts := alerts s @ [PanicAlert Vertex (StdString filename) (VertexShaderVersionString env) (error wunit)]\<rparr>)"

definition call_ResultHandler :: "env \<Rightarrow> ShaderCompilerWorkUnit \<Rightarrow> state \<Rightarrow> state" where
  "call_ResultHandler env wunit s =
     (case resultHandler wunit of
        None \<Rightarrow> s
      | Some (GSResult gs_uid entry) \<Rightarrow> GS_ResultHandler env gs_uid entry wunit s
      | Some (PSResult ps_uid entry) \<Rightarrow> PS_ResultHandler env ps_uid entry wunit s
      | Some (VSResult vs_uid entry) \<Rightarrow> VS_ResultHandler env vs_uid entry wunit s)"

definition ProcCompilationResults :: "env \<Rightarrow> state \<Rightarrow> state" where
  "ProcCompilationResults env s =
     fold (call_ResultHandler env) (finished s) (s\<lparr>finished := [], log := log s @ [Drain]\<rparr>)"

section \<open>The UID-change handlers\<close>

definition SetCurrentPrimitiveTopology :: "env \<Rightarrow> u32 \<Rightarrow> state \<Rightarrow> state" where
  "SetCurrentPrimitiveTopology env gs_primitive_type s =
     (if gs_primitive_type = PRIMITIVE_TRIANGLES env
        then s\<lparr>s_current_primitive_topology := D3D12_PRIMITIVE_TOPOLOGY_TYPE_TRIANGLE\<rparr>
      else if gs_primitive_type = PRIMITIVE_LINES env
        then s\<lparr>s_current_primitive_topology := D3D12_PRIMITIVE_TOPOLOGY_TYPE_LINE\<rparr>
      else if gs_primitive_type = PRIMITIVE_POINTS env
        then s\<lparr>s_current_primitive_topology := D3D12_PRIMITIVE_TOPOLOGY_TYPE_POINT\<rparr>
      else s)"

definition gs_unit :: "env \<Rightarrow> GeometryShaderUid \<Rightarrow> entry_ptr \<Rightarrow> u32 \<Rightarrow> u32 \<Rightarrow> XFMemory \<Rightarrow> ShaderCompilerWorkUnit" where
  "gs_unit env gs_uid entry gs_primitive_type components xfr =
     (let code = GenerateGeometryShaderCode env gs_primitive_type xfr components
      in NewUnit\<lparr>wu_code := code, codesize := length code, entrypoint := ''main'',
                 flags := {D3DCOMPILE_SKIP_VALIDATION, D3DCOMPILE_OPTIMIZATION_LEVEL3},
                 target := GeometryShaderVersionString env,
                 resultHandler := Some (GSResult gs_uid entry)\<rparr>)"

definition ps_unit :: "env \<Rightarrow> PixelShaderUid \<Rightarrow> entry_ptr \<Rightarrow> DSTALPHA_MODE \<Rightarrow> u32 \<Rightarrow> XFMemory \<Rightarrow> BPMemory \<Rightarrow> ShaderCompilerWorkUnit" where
  "ps_unit env ps_uid entry ps_dst_alpha_mode components xfr bpm =
     (let code = GeneratePixelShaderCodeD3D11 env ps_dst_alpha_mode components xfr bpm
      in NewUnit\<lparr>wu_code := code, codesize := length code, entrypoint := ''main'',
                 flags := {D3DCOMPILE_SKIP_VALIDATION, D3DCOMPILE_OPTIMIZATION_LEVEL3},
                 target := PixelShaderVersionString env,
                 resultHandler := Some (PSResult ps_uid entry)\<rparr>)"

definition vs_unit :: "env \<Rightarrow> VertexShaderUid \<Rightarrow> entry_ptr \<Rightarrow> u32 \<Rightarrow> XFMemory \<Rightarrow> BPMemory \<Rightarrow> ShaderCompilerWorkUnit" where
  "vs_unit env vs_uid entry components xfr bpm =
     (let code = GenerateVertexShaderCodeD3D11 env components xfr bpm
      in NewUnit\<lparr>wu_code := code, codesize := length code, entrypoint := ''main'',
                 flags := {D3DCOMPILE_SKIP_VALIDATION, D3DCOMPILE_OPTIMIZATION_LEVEL3,
                           D3DCOMPILE_ENABLE_BACKWARDS_COMPATIBILITY},
                 target := VertexShaderVersionString env,
                 resultHandler := Some (VSResult vs_uid entry)\<rparr>)"

definition HandleGSUIDChange :: "env \<Rightarrow> GeometryShaderUid \<Rightarrow> u32 \<Rightarrow> u32 \<Rightarrow> XFMemory \<Rightarrow> bool \<Rightarrow> state \<Rightarrow> state" where
  "HandleGSUIDChange env gs_uid gs_primitive_type components xfr on_gpu_thread s =
     (if IsPassthrough env gs_uid then s\<lparr>s_last_geometry_shader_bytecode := Some PassEntry\<rparr>
      else
        let (e, c) = index_cache (gs_bytecode_cache s) gs_uid;
            entry = GsEntry gs_uid;
            (was_set, e1) = test_and_set e;
            s1 = s\<lparr>gs_bytecode_cache := c(gs_uid \<mapsto> e1),
                   s_last_geometry_shader_bytecode :=
                     (if on_gpu_thread then Some entry else s_last_geometry_shader_bytecode s),
                   log := log s @ [LockAcquire, CacheLookup Geometry gs_uid, LockRelease]\<rparr>
        in if was_set then s1
           else CompileShaderAsync_call Geometry gs_uid
                  (gs_unit env gs_uid entry gs_primitive_type components xfr) s1)"

definition HandlePSUIDChange :: "env \<Rightarrow> PixelShaderUid \<Rightarrow> DSTALPHA_MODE \<Rightarrow> u32 \<Rightarrow> XFMemory \<Rightarrow> BPMemory \<Rightarrow> bool \<Rightarrow> state \<Rightarrow> state" where
  "HandlePSUIDChange env ps_uid ps_dst_alpha_mode components xfr bpm on_gpu_thread s =
     (let (e, c) = index_cache (ps_bytecode_cache s) ps_uid;
          entry = PsEntry ps_uid;
          (was_set, e1) = test_and_set e;
          s1 = s\<lparr>ps_bytecode_cache := c(ps_uid \<mapsto> e1),
                 s_last_pixel_shader_bytecode :=
                   (if on_gpu_thread then Some entry else s_last_pixel_shader_bytecode s),
                 log := log s @ [LockAcquire, CacheLookup Pixel ps_uid, LockRelease]\<rparr>
      in if was_set then s1
         else CompileShaderAsync_call Pixel ps_uid
                (ps_unit env ps_uid entry ps_dst_alpha_mode components xfr bpm) s1)"

definition HandleVSUIDChange :: "env \<Rightarrow> VertexShaderUid \<Rightarrow> u32 \<Rightarrow> XFMemory \<Rightarrow> BPMemory \<Rightarrow> bool \<Rightarrow> state \<Rightarrow> state" where
  "HandleVSUIDChange env vs_uid components xfr bpm on_gpu_thread s =
     (let (e, c) = index_cache (vs_bytecode_cache s) vs_uid;
          entry = VsEntry vs_uid;
          (was_set, e1) = test_and_set e;
          s1 = s\<lparr>vs_bytecode_cache := c(vs_uid \<mapsto> e1),
                 s_last_vertex_shader_bytecode :=
                   (if on_gpu_thread then Some entry else s_last_vertex_shader_bytecode s),
                 log := log s @ [LockAcquire, CacheLookup Vertex vs_uid, LockRelease]\<rparr>
      in if was_set then s1
         else CompileShaderAsync_call Vertex vs_uid
                (vs_unit env vs_uid entry components xfr bpm) s1)"

section \<open>PrepareShaders and TestShaders\<close>

text \<open>
  The UID checkers, which only exist in debug builds and keep an index of their own, are
  left out.
\<close>

definition PrepareShaders :: "env \<Rightarrow> DSTALPHA_MODE \<Rightarrow> u32 \<Rightarrow> u32 \<Rightarrow> XFMemory \<Rightarrow> BPMemory \<Rightarrow> bool \<Rightarrow> state \<Rightarrow> state" where
  "PrepareShaders env ps_dst_alpha_mode gs_primitive_type components xfr bpm on_gpu_thread s =
     (let s0 = SetCurrentPrimitiveTopology env gs_primitive_type s;
          gs_uid = GetGeometryShaderUid env gs_primitive_type xfr components;
          ps_uid = GetPixelShaderUidD3D11 env ps_dst_alpha_mode components xfr bpm;
          vs_uid = GetVertexShaderUidD3D11 env components xfr bpm;
          s1 = (if on_gpu_thread then ProcCompilationResults env s0 else s0);
          gs_changed = (if on_gpu_thread then gs_uid \<noteq> s_last_geometry_shader_uid s1
                        else gs_uid \<noteq> s_last_cpu_geometry_shader_uid s1);
          ps_changed = (if on_gpu_thread then ps_uid \<noteq> s_last_pixel_shader_uid s1
                        else ps_uid \<noteq> s_last_cpu_pixel_shader_uid s1);
          vs_changed = (if on_gpu_thread then vs_uid \<noteq> s_last_vertex_shader_uid s1
                        else vs_uid \<noteq> s_last_cpu_vertex_shader_uid s1)
      in if \<not> gs_changed \<and> \<not> ps_changed \<and> \<not> vs_changed then s1
         else
           let s2 = (if on_gpu_thread then
                       s1\<lparr>s_last_geometry_shader_uid :=
                             (if gs_changed then gs_uid else s_last_geometry_shader_uid s1),
                          s_last_pixel_shader_uid :=
                             (if ps_changed then ps_uid else s_last_pixel_shader_uid s1),
                          s_last_vertex_shader_uid :=
                             (if vs_changed then vs_uid else s_last_vertex_shader_uid s1),
                          m_dirty_pso := True\<rparr>
                     else
                       s1\<lparr>s_last_cpu_geometry_shader_uid :=
                             (if gs_changed then gs_uid else s_last_cpu_geometry_shader_uid s1),
                          s_last_cpu_pixel_shader_uid :=
                             (if ps_changed then ps_uid else s_last_cpu_pixel_shader_uid s1),
                          s_last_cpu_vertex_shader_uid :=
                             (if vs_changed then vs_uid else s_last_cpu_vertex_shader_uid s1)\<rparr>);
               s3 = (if gs_changed
                     then HandleGSUIDChange env gs_uid gs_primitive_type components xfr on_gpu_thread s2
                     else s2);
               s4 = (if ps_changed
                     then HandlePSUIDChange env ps_uid ps_dst_alpha_mode components xfr bpm on_gpu_thread s3
                     else s3)
           in if vs_changed
              then HandleVSUIDChange env vs_uid components xfr bpm on_gpu_thread s4
              else s4)"

text \<open>
  The active-bytecode accessors read the bytecode of the entry the active pointer points
  to; the source dereferences the pointer without a test, so there is no result
  (\<open>None\<close>) when the pointer is null or its entry is gone.
\<close>

definition GetActiveGeometryShaderBytecode :: "state \<Rightarrow> D3D12_SHADER_BYTECODE option" where
  "GetActiveGeometryShaderBytecode s =
     (case s_last_geometry_shader_bytecode s of
        None \<Rightarrow> None
      | Some p \<Rightarrow> map_option m_shader_bytecode (deref s p))"

definition GetActivePixelShaderBytecode :: "state \<Rightarrow> D3D12_SHADER_BYTECODE option" where
  "GetActivePixelShaderBytecode s =
     (case s_last_pixel_shader_bytecode s of
        None \<Rightarrow> None
      | Some p \<Rightarrow> map_option m_shader_bytecode (deref s p))"

definition GetActiveVertexShaderBytecode :: "state \<Rightarrow> D3D12_SHADER_BYTECODE option" where
  "GetActiveVertexShaderBytecode s =
     (case s_last_vertex_shader_bytecode s of
        None \<Rightarrow> None
      | Some p \<Rightarrow> map_option m_shader_bytecode (deref s p))"

definition entry_compiled :: "state \<Rightarrow> entry_ptr \<Rightarrow> bool" where
  "entry_compiled s p = (case deref s p of None \<Rightarrow> False | Some e \<Rightarrow> m_compiled e)"

definition active_compiled :: "state \<Rightarrow> bool" where
  "active_compiled s =
     (case (s_last_geometry_shader_bytecode s, s_last_pixel_shader_bytecode s,
            s_last_vertex_shader_bytecode s) of
        (Some g, Some p, Some v) \<Rightarrow> entry_compiled s g \<and> entry_compiled s p \<and> entry_compiled s v
      | _ \<Rightarrow> False)"

text \<open>
  \<open>Common::cYield\<close> gives the processor away; what the background compiler thread gets
  done meanwhile is the parameter \<open>sched\<close>: the number of units it finishes during the
  yield with the given count.
\<close>

definition cYield :: "env \<Rightarrow> (nat \<Rightarrow> nat) \<Rightarrow> nat \<Rightarrow> state \<Rightarrow> state" where
  "cYield env sched count s = compiler_thread env (sched count) s"

partial_function (option) TestShaders_loop :: "env \<Rightarrow> (nat \<Rightarrow> nat) \<Rightarrow> nat \<Rightarrow> state \<Rightarrow> state option" where
  "TestShaders_loop env sched count s =
     (if active_compiled s then Some s
      else
        let s1 = ProcCompilationResults env s
        in if g_ActiveConfig_bFullAsyncShaderCompilation env then Some s1
           else TestShaders_loop env sched (count + 1) (cYield env sched count s1))"

definition TestShaders :: "env \<Rightarrow> (nat \<Rightarrow> nat) \<Rightarrow> state \<Rightarrow> (bool \<times> state) option" where
  "TestShaders env sched s =
     (if s_last_geometry_shader_bytecode s = None
         \<or> s_last_pixel_shader_bytecode s = None
         \<or> s_last_vertex_shader_bytecode s = None
      then Some (False, s)
      else
        (case TestShaders_loop env sched 0 s of
           None \<Rightarrow> None
         | Some s1 \<Rightarrow> Some (active_compiled s1, s1)))"

section \<open>Sequences of calls, and what the log shows\<close>

definition disk_cache_of :: "stage \<Rightarrow> state \<Rightarrow> (nat \<times> u8 list) list" where
  "disk_cache_of st s =
     (case st of
        Geometry \<Rightarrow> s_gs_disk_cache s
      | Pixel \<Rightarrow> s_ps_disk_cache s
      | Vertex \<Rightarrow> s_vs_disk_cache s)"

text \<open>
  One step of a run: a call of one of the three UID-change handlers with its arguments,
  a drain of the finished units, or the background thread finishing some units.
\<close>

datatype call =
  GSChange GeometryShaderUid u32 u32 XFMemory bool
| PSChange PixelShaderUid DSTALPHA_MODE u32 XFMemory BPMemory bool
| VSChange VertexShaderUid u32 XFMemory BPMemory bool
| DrainCall
| Background nat

fun do_call :: "env \<Rightarrow> call \<Rightarrow> state \<Rightarrow> state" where
  "do_call env (GSChange gs_uid gs_primitive_type components xfr on_gpu_thread) s =
     HandleGSUIDChange env gs_uid gs_primitive_type components xfr on_gpu_thread s"
| "do_call env (PSChange ps_uid ps_dst_alpha_mode components xfr bpm on_gpu_thread) s =
     HandlePSUIDChange env ps_uid ps_dst_alpha_mode components xfr bpm on_gpu_thread s"
| "do_call env (VSChange vs_uid components xfr bpm on_gpu_thread) s =
     HandleVSUIDChange env vs_uid components xfr bpm on_gpu_thread s"
| "do_call env DrainCall s = ProcCompilationResults env s"
| "do_call env (Background n) s = compiler_thread env n s"

definition run :: "env \<Rightarrow> call list \<Rightarrow> state \<Rightarrow> state" where
  "run env calls s = fold (do_call env) calls s"

text \<open>
  Whether a call is a UID-change handler call that reaches the test-and-set of the entry
  of the given stage and UID (a passthrough geometry UID returns before it).
\<close>

fun tests_flag_of :: "env \<Rightarrow> call \<Rightarrow> stage \<Rightarrow> nat \<Rightarrow> bool" where
  "tests_flag_of env (GSChange gs_uid gs_primitive_type components xfr on_gpu_thread) st uid =
     (st = Geometry \<and> uid = gs_uid \<and> \<not> IsPassthrough env gs_uid)"
| "tests_flag_of env (PSChange ps_uid ps_dst_alpha_mode components xfr bpm on_gpu_thread) st uid =
     (st = Pixel \<and> uid = ps_uid)"
| "tests_flag_of env (VSChange vs_uid components xfr bpm on_gpu_thread) st uid =
     (st = Vertex \<and> uid = vs_uid)"
| "tests_flag_of env DrainCall st uid = False"
| "tests_flag_of env (Background n) st uid = False"

text \<open>The value of the one-shot flag of a UID; an absent entry is created with it clear.\<close>

definition flag_set :: "stage \<Rightarrow> nat \<Rightarrow> state \<Rightarrow> bool" where
  "flag_set st uid s = (case cache_of st s uid of None \<Rightarrow> False | Some e \<Rightarrow> m_initialized e)"

definition dispatches :: "stage \<Rightarrow> nat \<Rightarrow> state \<Rightarrow> nat" where
  "dispatches st uid s = count_list (log s) (CompileShaderAsync st uid)"

fun is_dispatch :: "action \<Rightarrow> bool" where
  "is_dispatch (CompileShaderAsync st uid) = True"
| "is_dispatch a = False"

fun is_lookup_lock_dispatch :: "action \<Rightarrow> bool" where
  "is_lookup_lock_dispatch LockAcquire = True"
| "is_lookup_lock_dispatch LockRelease = True"
| "is_lookup_lock_dispatch (CacheLookup st uid) = True"
| "is_lookup_lock_dispatch (CompileShaderAsync st uid) = True"
| "is_lookup_lock_dispatch (DiskAppend st uid) = False"
| "is_lookup_lock_dispatch Drain = False"

fun is_drain :: "action \<Rightarrow> bool" where
  "is_drain Drain = True"
| "is_drain a = False"

section \<open>A concrete environment and concrete states\<close>

text \<open>The globals as static initialisation leaves them, before \<open>Init\<close>.\<close>

definition static_state :: state where
  "static_state =
     \<lparr>s_current_primitive_topology = D3D12_PRIMITIVE_TOPOLOGY_TYPE_TRIANGLE,
      s_pass_entry = ByteCodeCacheEntry_ctor,
      gs_bytecode_cache = Map.empty,
      ps_bytecode_cache = Map.empty,
      vs_bytecode_cache = Map.empty,
      s_shader_blob_list = [],
      s_gs_disk_cache = [],
      s_ps_disk_cache = [],
      s_vs_disk_cache = [],
      s_last_geometry_shader_bytecode = None,
      s_last_pixel_shader_bytecode = None,
      s_last_vertex_shader_bytecode = None,
      s_last_geometry_shader_uid = 0,
      s_last_pixel_shader_uid = 0,
      s_last_vertex_shader_uid = 0,
      s_last_cpu_geometry_shader_uid = 0,
      s_last_cpu_pixel_shader_uid = 0,
      s_last_cpu_vertex_shader_uid = 0,
      in_flight = [],
      finished = [],
      m_dirty_pso = False,
      gs_num_failures = 0,
      ps_num_failures = 0,
      vs_num_failures = 0,
      dump_files = [],
      alerts = [],
      szTemp_overrun = False,
      log = []\<rparr>"

text \<open>
  An environment to run the model in: the UIDs are simple functions of the graphics
  state, UID 7 is the passthrough geometry UID, and the compiler rejects exactly the
  source text \<open>bad\<close>.
\<close>

definition test_env :: "bool \<Rightarrow> bool \<Rightarrow> env" where
  "test_env debugging full_async =
     \<lparr>g_Config_bEnableShaderDebugging = debugging,
      g_ActiveConfig_bEnableShaderDebugging = debugging,
      g_ActiveConfig_bFullAsyncShaderCompilation = full_async,
      DEBUG_BUILD = False,
      IsPassthrough = (\<lambda>uid. uid = 7),
      PRIMITIVE_TRIANGLES = 2,
      PRIMITIVE_LINES = 1,
      PRIMITIVE_POINTS = 0,
      GetGeometryShaderUid = (\<lambda>gs_primitive_type xfr components. xfr),
      GetPixelShaderUidD3D11 = (\<lambda>ps_dst_alpha_mode components xfr bpm. bpm),
      GetVertexShaderUidD3D11 = (\<lambda>components xfr bpm. unat components),
      GenerateGeometryShaderCode = (\<lambda>gs_primitive_type xfr components. ''gs''),
      GeneratePixelShaderCodeD3D11 = (\<lambda>ps_dst_alpha_mode components xfr bpm. ''ps''),
      GenerateVertexShaderCodeD3D11 = (\<lambda>components xfr bpm. if bpm = 9 then ''bad'' else ''vs''),
      GeometryShaderVersionString = ''gs_5_0'',
      PixelShaderVersionString = ''ps_5_0'',
      VertexShaderVersionString = ''vs_5_0'',
      D_DUMP_IDX = ''Dump/'',
      MAX_PATH = 260,
      D3DCompile = (\<lambda>code entrypoint flags target.
                      if code = ''bad'' then Inl ''error X3000'' else Inr [1, 2, 3])\<rparr>"

section \<open>What a step leaves alone\<close>

definition ptr_of :: "stage \<Rightarrow> nat \<Rightarrow> entry_ptr" where
  "ptr_of st uid = (case st of Geometry \<Rightarrow> GsEntry uid | Pixel \<Rightarrow> PsEntry uid | Vertex \<Rightarrow> VsEntry uid)"

text \<open>
  Two states agree on the topology, the three active entry pointers, the six last-seen
  UIDs, the enqueued units and the pipeline-dirty flag.
\<close>

definition same_frame :: "state \<Rightarrow> state \<Rightarrow> bool" where
  "same_frame s t =
     (s_current_primitive_topology t = s_current_primitive_topology s
      \<and> s_last_geometry_shader_bytecode t = s_last_geometry_shader_bytecode s
      \<and> s_last_pixel_shader_bytecode t = s_last_pixel_shader_bytecode s
      \<and> s_last_vertex_shader_bytecode t = s_last_vertex_shader_bytecode s
      \<and> s_last_geometry_shader_uid t = s_last_geometry_shader_uid s
      \<and> s_last_pixel_shader_uid t = s_last_pixel_shader_uid s
      \<and> s_last_vertex_shader_uid t = s_last_vertex_shader_uid s
      \<and> s_last_cpu_geometry_shader_uid t = s_last_cpu_geometry_shader_uid s
      \<and> s_last_cpu_pixel_shader_uid t = s_last_cpu_pixel_shader_uid s
      \<and> s_last_cpu_vertex_shader_uid t = s_last_cpu_vertex_shader_uid s
      \<and> in_flight t = in_flight s
      \<and> m_dirty_pso t = m_dirty_pso s)"

fun is_disk_append :: "action \<Rightarrow> bool" where
  "is_disk_append (DiskAppend st uid) = True"
| "is_disk_append a = False"

text \<open>The second state's log is the first one's, followed by disk appends only.\<close>

definition quiet_step :: "state \<Rightarrow> state \<Rightarrow> bool" where
  "quiet_step s t = (\<exists>evs. log t = log s @ evs \<and> list_all is_disk_append evs)"


text \<open>
  The UIDs the graphics state derives are the ones the calling context saw last, for all
  three stages.
\<close>

definition memo_matches :: "env \<Rightarrow> DSTALPHA_MODE \<Rightarrow> u32 \<Rightarrow> u32 \<Rightarrow> XFMemory \<Rightarrow> BPMemory \<Rightarrow> bool \<Rightarrow> state \<Rightarrow> bool" where
  "memo_matches env ps_dst_alpha_mode gs_primitive_type components xfr bpm on_gpu_thread s =
     (if on_gpu_thread
      then GetGeometryShaderUid env gs_primitive_type xfr components = s_last_geometry_shader_uid s
           \<and> GetPixelShaderUidD3D11 env ps_dst_alpha_mode components xfr bpm = s_last_pixel_shader_uid s
           \<and> GetVertexShaderUidD3D11 env components xfr bpm = s_last_vertex_shader_uid s
      else GetGeometryShaderUid env gs_primitive_type xfr components = s_last_cpu_geometry_shader_uid s
           \<and> GetPixelShaderUidD3D11 env ps_dst_alpha_mode components xfr bpm = s_last_cpu_pixel_shader_uid s
           \<and> GetVertexShaderUidD3D11 env components xfr bpm = s_last_cpu_vertex_shader_uid s)"

text \<open>
  Two runs of the program in the concrete environment. In \<open>pending_state\<close> the
  submission context has prepared shaders with a passthrough geometry UID, pixel UID 3
  and vertex UID 2 right after \<open>Init\<close>: both compiles are enqueued. In \<open>ready_state\<close> the
  background thread has finished both, a drain has published them, an auxiliary-context
  call has then dispatched pixel UID 4, and the background thread has finished that unit,
  which waits for the next drain.
\<close>

text \<open>
  In \<open>three_finished_state\<close> the submission context has prepared shaders with geometry
  UID 5, pixel UID 3 and vertex UID 2 right after \<open>Init\<close>, and the background thread has
  finished the three units, which wait for the next drain.
\<close>

definition three_finished_state :: state where
  "three_finished_state =
     compiler_thread (test_env False False) 3
       (PrepareShaders (test_env False False) 0 2 2 5 3 True
          (Init (test_env False False) static_state))"

definition pending_state :: "bool \<Rightarrow> state" where
  "pending_state full_async =
     PrepareShaders (test_env False full_async) 0 2 2 7 3 True
       (Init (test_env False full_async) static_state)"

definition ready_state :: state where
  "ready_state =
     compiler_thread (test_env False True) 1
       (PrepareShaders (test_env False True) 0 2 2 7 4 False
          (ProcCompilationResults (test_env False True)
             (compiler_thread (test_env False True) 2 (pending_state True))))"

section \<open>Theorems: the filesystem factory\<close>

text \<open>
  Claim C10. \<open>CreateFileSystem\<close> returns null exactly when the volume pointer is null or
  the filesystem constructed over the volume is not valid; every non-null result is the
  filesystem constructed over that volume, and it is valid.
\<close>

theorem CreateFileSystem_null_iff:
  "(CreateFileSystem detect volume = None) =
     (volume = None \<or> (\<exists>v. volume = Some v \<and> \<not> IsValid (CFileSystemGCWii_ctor detect v)))
   \<and> (\<forall>fs. CreateFileSystem detect volume = Some fs \<longrightarrow>
         (\<exists>v. volume = Some v \<and> fs = CFileSystemGCWii_ctor detect v \<and> m_rVolume fs = v \<and> IsValid fs))"
  by (cases volume)
     (auto simp: CreateFileSystem_def make_unique_CFileSystemGCWii_def CFileSystemGCWii_ctor_def
        IFileSystem_ctor_def IsValid_def)

theorem CreateFileSystem_null_iff_witness:
  "CreateFileSystem (\<lambda>v. v = 1) (Some 1) = Some \<lparr>m_rVolume = 1, m_Valid = True\<rparr>
   \<and> CreateFileSystem (\<lambda>v. v = 1) (Some 2) = None
   \<and> CreateFileSystem (\<lambda>v. v = 1) None = None"
  using CreateFileSystem_null_iff [of "\<lambda>v. v = 1" "Some 1"]
    CreateFileSystem_null_iff [of "\<lambda>v. v = 1" "Some 2"]
    CreateFileSystem_null_iff [of "\<lambda>v. v = 1" "None"]
  by (auto simp: CFileSystemGCWii_ctor_def IFileSystem_ctor_def IsValid_def)

section \<open>Theorems: the by-UID accessors\<close>

lemma index_cache_absent:
  "cache uid = None \<Longrightarrow>
     index_cache cache uid = (ByteCodeCacheEntry_ctor, cache(uid \<mapsto> ByteCodeCacheEntry_ctor))"
  by (simp add: index_cache_def)

text \<open>
  Claim C9. For a UID that is not in a stage's cache, the by-UID accessor of that stage
  inserts a default entry for it (not compiled, one-shot flag clear, zero bytecode) and
  returns the zero bytecode: the query changes the cache.
\<close>

theorem FromUid_inserts_default_entry:
  "(gs_bytecode_cache s uid = None \<longrightarrow>
      GetGeometryShaderFromUid uid s =
        (zero_bytecode,
         s\<lparr>gs_bytecode_cache := (gs_bytecode_cache s)(uid \<mapsto> ByteCodeCacheEntry_ctor),
           log := log s @ [CacheLookup Geometry uid]\<rparr>))
   \<and> (ps_bytecode_cache s uid = None \<longrightarrow>
      GetPixelShaderFromUid uid s =
        (zero_bytecode,
         s\<lparr>ps_bytecode_cache := (ps_bytecode_cache s)(uid \<mapsto> ByteCodeCacheEntry_ctor),
           log := log s @ [CacheLookup Pixel uid]\<rparr>))
   \<and> (vs_bytecode_cache s uid = None \<longrightarrow>
      GetVertexShaderFromUid uid s =
        (zero_bytecode,
         s\<lparr>vs_bytecode_cache := (vs_bytecode_cache s)(uid \<mapsto> ByteCodeCacheEntry_ctor),
           log := log s @ [CacheLookup Vertex uid]\<rparr>))
   \<and> \<not> m_compiled ByteCodeCacheEntry_ctor
   \<and> \<not> m_initialized ByteCodeCacheEntry_ctor
   \<and> m_shader_bytecode ByteCodeCacheEntry_ctor = zero_bytecode
   \<and> pShaderBytecode zero_bytecode = None
   \<and> BytecodeLength zero_bytecode = 0"
  by (simp add: GetGeometryShaderFromUid_def GetPixelShaderFromUid_def GetVertexShaderFromUid_def
      index_cache_absent ByteCodeCacheEntry_ctor_def zero_bytecode_def)

theorem FromUid_inserts_default_entry_witness:
  "gs_bytecode_cache static_state 4 = None
   \<and> fst (GetGeometryShaderFromUid 4 static_state) = zero_bytecode
   \<and> gs_bytecode_cache (snd (GetGeometryShaderFromUid 4 static_state)) 4 = Some ByteCodeCacheEntry_ctor
   \<and> ps_bytecode_cache static_state 4 = None
   \<and> fst (GetPixelShaderFromUid 4 static_state) = zero_bytecode
   \<and> ps_bytecode_cache (snd (GetPixelShaderFromUid 4 static_state)) 4 = Some ByteCodeCacheEntry_ctor
   \<and> vs_bytecode_cache static_state 4 = None
   \<and> fst (GetVertexShaderFromUid 4 static_state) = zero_bytecode
   \<and> vs_bytecode_cache (snd (GetVertexShaderFromUid 4 static_state)) 4 = Some ByteCodeCacheEntry_ctor"
proof -
  have g: "gs_bytecode_cache static_state 4 = None"
    and p: "ps_bytecode_cache static_state 4 = None"
    and v: "vs_bytecode_cache static_state 4 = None"
    by (simp_all add: static_state_def)
  show ?thesis
    using g p v FromUid_inserts_default_entry [of static_state 4] by simp
qed

section \<open>Lemmas: writes through entry pointers and the result handlers\<close>

lemma same_frame_refl: "same_frame s s"
  by (simp add: same_frame_def)

lemma same_frame_trans: "same_frame s t \<Longrightarrow> same_frame t u \<Longrightarrow> same_frame s u"
  by (simp add: same_frame_def)

lemma quiet_step_refl: "quiet_step s s"
  by (simp add: quiet_step_def)

lemma quiet_step_trans: "quiet_step s t \<Longrightarrow> quiet_step t u \<Longrightarrow> quiet_step s u"
  by (auto simp: quiet_step_def)

lemma same_frame_upd_entry: "same_frame s (upd_entry p f s)"
  by (cases p) (simp_all add: same_frame_def upd_entry_def)

lemma log_upd_entry: "log (upd_entry p f s) = log s"
  by (cases p) (simp_all add: upd_entry_def)

lemma finished_upd_entry: "finished (upd_entry p f s) = finished s"
  by (cases p) (simp_all add: upd_entry_def)

lemma cache_of_upd_entry:
  "cache_of st (upd_entry p f s) uid =
     (if p = ptr_of st uid then map_option f (cache_of st s uid) else cache_of st s uid)"
  by (cases p; cases st) (auto simp: upd_entry_def cache_of_def ptr_of_def upd_map_def split: option.splits)

lemma flag_set_upd_entry:
  "(\<And>e. m_initialized (f e) = m_initialized e) \<Longrightarrow> flag_set st uid (upd_entry p f s) = flag_set st uid s"
  by (simp add: flag_set_def cache_of_upd_entry split: option.splits)

lemma m_initialized_publish: "m_initialized (publish b e) = m_initialized e"
  by (simp add: publish_def)

lemma m_initialized_set_code: "m_initialized (set_code c e) = m_initialized e"
  by (simp add: set_code_def)

lemma same_frame_PushByteCode: "same_frame s (PushByteCode p b s)"
  by (cases p) (simp_all add: same_frame_def upd_entry_def PushByteCode_def)

lemma log_PushByteCode: "log (PushByteCode p b s) = log s"
  by (simp add: PushByteCode_def log_upd_entry)

lemma flag_set_PushByteCode: "flag_set st uid (PushByteCode p b s) = flag_set st uid s"
  by (simp add: PushByteCode_def flag_set_upd_entry m_initialized_publish)
     (simp add: flag_set_def cache_of_def split: stage.splits)

lemma same_frame_call_ResultHandler: "same_frame s (call_ResultHandler env w s)"
proof -
  have a: "\<And>p b c t. same_frame s t \<Longrightarrow> same_frame s (upd_entry p c (PushByteCode p b t))"
    by (meson same_frame_trans same_frame_PushByteCode same_frame_upd_entry)
  have b: "\<And>p b t. same_frame s t \<Longrightarrow> same_frame s (PushByteCode p b t)"
    by (meson same_frame_trans same_frame_PushByteCode)
  show ?thesis
    by (auto simp: call_ResultHandler_def GS_ResultHandler_def PS_ResultHandler_def
        VS_ResultHandler_def Let_def split: option.splits ResultHandler.splits
        intro!: a b)
       (simp_all add: same_frame_def)
qed

lemma quiet_step_call_ResultHandler: "quiet_step s (call_ResultHandler env w s)"
  by (auto simp: call_ResultHandler_def GS_ResultHandler_def PS_ResultHandler_def
      VS_ResultHandler_def Let_def quiet_step_def log_upd_entry log_PushByteCode
      split: option.splits ResultHandler.splits)

lemma flag_set_call_ResultHandler:
  "flag_set st uid (call_ResultHandler env w s) = flag_set st uid s"
  by (auto simp: call_ResultHandler_def GS_ResultHandler_def PS_ResultHandler_def
      VS_ResultHandler_def Let_def flag_set_upd_entry flag_set_PushByteCode m_initialized_set_code
      split: option.splits ResultHandler.splits)
     (simp_all add: flag_set_def cache_of_def split: stage.splits)

lemma finished_call_ResultHandler: "finished (call_ResultHandler env w s) = finished s"
  by (auto simp: call_ResultHandler_def GS_ResultHandler_def PS_ResultHandler_def
      VS_ResultHandler_def Let_def finished_upd_entry PushByteCode_def
      split: option.splits ResultHandler.splits)

lemma fold_handlers:
  "same_frame s (fold (call_ResultHandler env) ws s)
   \<and> quiet_step s (fold (call_ResultHandler env) ws s)
   \<and> flag_set st uid (fold (call_ResultHandler env) ws s) = flag_set st uid s
   \<and> finished (fold (call_ResultHandler env) ws s) = finished s"
proof (induction ws arbitrary: s)
  case Nil
  show ?case by (simp add: same_frame_refl quiet_step_refl)
next
  case (Cons w ws)
  show ?case
    using Cons.IH [of "call_ResultHandler env w s"]
      same_frame_call_ResultHandler [of s env w] quiet_step_call_ResultHandler [of s env w]
    by (auto simp: flag_set_call_ResultHandler finished_call_ResultHandler
        intro: same_frame_trans quiet_step_trans)
qed

section \<open>Lemmas: drains and single calls\<close>

lemma Proc_frame:
  "same_frame s (ProcCompilationResults env s)"
  using fold_handlers [of "s\<lparr>finished := [], log := log s @ [Drain]\<rparr>" env "finished s"]
  by (simp add: ProcCompilationResults_def same_frame_def)

lemma Proc_log:
  "\<exists>evs. log (ProcCompilationResults env s) = log s @ Drain # evs \<and> list_all is_disk_append evs"
  using fold_handlers [of "s\<lparr>finished := [], log := log s @ [Drain]\<rparr>" env "finished s"]
  by (auto simp: ProcCompilationResults_def quiet_step_def)

lemma Proc_flag_set:
  "flag_set st uid (ProcCompilationResults env s) = flag_set st uid s"
  using fold_handlers [of "s\<lparr>finished := [], log := log s @ [Drain]\<rparr>" env "finished s" st uid]
  by (simp add: ProcCompilationResults_def)
     (simp add: flag_set_def cache_of_def split: stage.splits)

lemma Proc_finished: "finished (ProcCompilationResults env s) = []"
  using fold_handlers [of "s\<lparr>finished := [], log := log s @ [Drain]\<rparr>" env "finished s"]
  by (simp add: ProcCompilationResults_def)

lemma disk_appends_count:
  "list_all is_disk_append evs \<Longrightarrow> count_list evs (CompileShaderAsync st uid) = 0"
  by (induction evs) (auto elim: is_disk_append.elims)

lemma disk_appends_filter:
  "list_all is_disk_append evs \<Longrightarrow> filter is_lookup_lock_dispatch evs = [] \<and> filter is_dispatch evs = []"
  by (induction evs) (auto elim: is_disk_append.elims)

lemma disk_appends_no_drain:
  "list_all is_disk_append evs \<Longrightarrow> filter is_drain evs = []"
  by (induction evs) (auto elim: is_disk_append.elims)

lemma count_list_append2: "count_list (xs @ ys) a = count_list xs a + count_list ys a"
  by (induction xs) auto

lemma Proc_dispatches: "dispatches st uid (ProcCompilationResults env s) = dispatches st uid s"
  using Proc_log [of env s] by (auto simp: dispatches_def count_list_append2 disk_appends_count)

lemma Proc_lld:
  "filter is_lookup_lock_dispatch (log (ProcCompilationResults env s)) = filter is_lookup_lock_dispatch (log s)"
  using Proc_log [of env s] by (auto simp: disk_appends_filter)

lemma Proc_is_dispatch:
  "filter is_dispatch (log (ProcCompilationResults env s)) = filter is_dispatch (log s)"
  using Proc_log [of env s] by (auto simp: disk_appends_filter)

lemma Proc_drains:
  "filter is_drain (log (ProcCompilationResults env s)) = filter is_drain (log s) @ [Drain]"
  using Proc_log [of env s] by (auto simp: disk_appends_no_drain)

lemma test_and_set_flag:
  "fst (test_and_set (fst (index_cache (cache_of st s) uid))) = flag_set st uid s"
  by (simp add: test_and_set_def index_cache_def flag_set_def ByteCodeCacheEntry_ctor_def
      split: option.splits)

lemma do_call_dispatches:
  "dispatches st uid (do_call env c s) =
     dispatches st uid s + (if tests_flag_of env c st uid \<and> \<not> flag_set st uid s then 1 else 0)"
proof (cases c)
  case (GSChange u a b x g)
  then show ?thesis
    by (cases st)
       (auto simp: HandleGSUIDChange_def dispatches_def flag_set_def cache_of_def index_cache_def
          test_and_set_def CompileShaderAsync_call_def ByteCodeCacheEntry_ctor_def Let_def
          split: option.splits)
next
  case (PSChange u a b x y g)
  then show ?thesis
    by (cases st)
       (auto simp: HandlePSUIDChange_def dispatches_def flag_set_def cache_of_def index_cache_def
          test_and_set_def CompileShaderAsync_call_def ByteCodeCacheEntry_ctor_def Let_def
          split: option.splits)
next
  case (VSChange u b x y g)
  then show ?thesis
    by (cases st)
       (auto simp: HandleVSUIDChange_def dispatches_def flag_set_def cache_of_def index_cache_def
          test_and_set_def CompileShaderAsync_call_def ByteCodeCacheEntry_ctor_def Let_def
          split: option.splits)
next
  case DrainCall
  then show ?thesis by (simp add: Proc_dispatches)
next
  case (Background n)
  then show ?thesis by (simp add: compiler_thread_def dispatches_def)
qed

lemma do_call_flag_set:
  "flag_set st uid (do_call env c s) = (flag_set st uid s \<or> tests_flag_of env c st uid)"
proof (cases c)
  case (GSChange u a b x g)
  then show ?thesis
    by (cases st)
       (auto simp: HandleGSUIDChange_def flag_set_def cache_of_def index_cache_def
          test_and_set_def CompileShaderAsync_call_def ByteCodeCacheEntry_ctor_def Let_def
          split: option.splits)
next
  case (PSChange u a b x y g)
  then show ?thesis
    by (cases st)
       (auto simp: HandlePSUIDChange_def flag_set_def cache_of_def index_cache_def
          test_and_set_def CompileShaderAsync_call_def ByteCodeCacheEntry_ctor_def Let_def
          split: option.splits)
next
  case (VSChange u b x y g)
  then show ?thesis
    by (cases st)
       (auto simp: HandleVSUIDChange_def flag_set_def cache_of_def index_cache_def
          test_and_set_def CompileShaderAsync_call_def ByteCodeCacheEntry_ctor_def Let_def
          split: option.splits)
next
  case DrainCall
  then show ?thesis by (simp add: Proc_flag_set)
next
  case (Background n)
  then show ?thesis by (simp add: compiler_thread_def flag_set_def cache_of_def split: stage.splits)
qed

lemma run_flag_set: "flag_set st uid s \<Longrightarrow> flag_set st uid (run env calls s)"
  unfolding run_def by (induction calls arbitrary: s) (simp_all add: do_call_flag_set)

lemma run_dispatches:
  "dispatches st uid (run env calls s) \<le> dispatches st uid s + (if flag_set st uid s then 0 else 1)"
  unfolding run_def
proof (induction calls arbitrary: s)
  case Nil
  show ?case by simp
next
  case (Cons c calls)
  show ?case
    using Cons.IH [of "do_call env c s"]
    by (simp add: do_call_dispatches do_call_flag_set split: if_splits)
qed


section \<open>Theorems: the one-shot flag\<close>

text \<open>
  Claim C2. In any sequence of UID-change handler calls (also with drains and background
  compilation in between) the one-shot flag of an entry, once set, stays set, so it goes
  from false to true at most once; the value the test-and-set returns is the flag's
  previous value (false for an entry created by the lookup); a call submits a compile
  work unit for a UID exactly when it reaches the test-and-set of that UID's entry and
  gets false; hence the sequence submits at most one unit per stage and UID, and none
  when the flag was already set.
\<close>

theorem single_dispatch_per_uid:
  "(flag_set st uid s \<longrightarrow> flag_set st uid (run env calls s))
   \<and> fst (test_and_set (fst (index_cache (cache_of st s) uid))) = flag_set st uid s
   \<and> flag_set st uid (do_call env c s) = (flag_set st uid s \<or> tests_flag_of env c st uid)
   \<and> dispatches st uid (do_call env c s) =
       dispatches st uid s + (if tests_flag_of env c st uid \<and> \<not> flag_set st uid s then 1 else 0)
   \<and> dispatches st uid (run env calls s) \<le>
       dispatches st uid s + (if flag_set st uid s then 0 else 1)"
  using run_flag_set [of st uid s env calls] test_and_set_flag [of st s uid]
    do_call_flag_set [of st uid env c s] do_call_dispatches [of st uid env c s]
    run_dispatches [of st uid env calls s]
  by blast

theorem single_dispatch_per_uid_witness:
  "flag_set Pixel 3 (do_call (test_env False False) (PSChange 3 0 0 0 3 True) static_state)
   \<and> flag_set Pixel 3
       (run (test_env False False)
          [Background 1, DrainCall, PSChange 3 0 0 0 3 False, PSChange 3 0 0 0 3 True]
          (do_call (test_env False False) (PSChange 3 0 0 0 3 True) static_state))
   \<and> dispatches Pixel 3 (do_call (test_env False False) (PSChange 3 0 0 0 3 True) static_state) = 1
   \<and> dispatches Pixel 3
       (run (test_env False False)
          [Background 1, DrainCall, PSChange 3 0 0 0 3 False, PSChange 3 0 0 0 3 True]
          (do_call (test_env False False) (PSChange 3 0 0 0 3 True) static_state)) \<le> 1"
proof -
  let ?E = "test_env False False"
  let ?c = "PSChange 3 0 0 0 3 True"
  let ?s1 = "do_call ?E ?c static_state"
  let ?calls = "[Background 1, DrainCall, PSChange 3 0 0 0 3 False, PSChange 3 0 0 0 3 True]"
  have f0: "\<not> flag_set Pixel 3 static_state"
    by (simp add: flag_set_def cache_of_def static_state_def)
  have d0: "dispatches Pixel 3 static_state = 0"
    by (simp add: dispatches_def static_state_def)
  have f1: "flag_set Pixel 3 ?s1"
    using single_dispatch_per_uid [of Pixel 3 static_state ?E "[]" ?c] by simp
  have d1: "dispatches Pixel 3 ?s1 = 1"
    using single_dispatch_per_uid [of Pixel 3 static_state ?E "[]" ?c] f0 d0 by simp
  show ?thesis
    using single_dispatch_per_uid [of Pixel 3 ?s1 ?E ?calls ?c] f1 d1 by simp
qed

section \<open>Lemmas: the replay of a disk cache\<close>














section \<open>Theorems: Init and the disk caches\<close>



text \<open>
  Claim C1 (the program at a debugging start-up). \<open>Clear\<close> has an empty body, so
  \<open>Init\<close> with shader debugging enabled does what it does with debugging disabled: the
  record of the geometry disk cache is replayed and stays, its entry is compiled from the
  file, the file keeps the record, and the handler called for that UID afterwards
  submits no compile.
\<close>

theorem debug_Init_keeps_disk_cache:
  "Init (test_env True False) (static_state\<lparr>s_gs_disk_cache := [(5, [1, 2])]\<rparr>)
     = Init (test_env False False) (static_state\<lparr>s_gs_disk_cache := [(5, [1, 2])]\<rparr>)
   \<and> g_Config_bEnableShaderDebugging (test_env True False)
   \<and> gs_bytecode_cache (Init (test_env True False) (static_state\<lparr>s_gs_disk_cache := [(5, [1, 2])]\<rparr>)) 5
       = Some \<lparr>m_shader_bytecode = \<lparr>pShaderBytecode = Some [1, 2], BytecodeLength = 2\<rparr>,
               m_compiled = True, m_initialized = True, code = []\<rparr>
   \<and> s_gs_disk_cache (Init (test_env True False) (static_state\<lparr>s_gs_disk_cache := [(5, [1, 2])]\<rparr>))
       = [(5, [1, 2])]
   \<and> log (Init (test_env True False) (static_state\<lparr>s_gs_disk_cache := [(5, [1, 2])]\<rparr>))
       = [LockRelease, LockAcquire, CacheLookup Geometry 5, LockRelease]
   \<and> log (HandleGSUIDChange (test_env True False) 5 0 0 0 True
            (Init (test_env True False) (static_state\<lparr>s_gs_disk_cache := [(5, [1, 2])]\<rparr>)))
       = [LockRelease, LockAcquire, CacheLookup Geometry 5, LockRelease,
          LockAcquire, CacheLookup Geometry 5, LockRelease]"
  by (simp add: Init_def Clear_def OpenAndRead_def ShaderCacheInserter_Read_def InsertByteCode_def
      HandleGSUIDChange_def index_cache_def test_and_set_def publish_def cache_of_def set_cache_def
      D3DBlob_ctor_def Data_def Size_def ByteCodeCacheEntry_ctor_def zero_bytecode_def
      static_state_def test_env_def Let_def)

section \<open>Theorems: the passthrough geometry UID\<close>

lemma passthrough_call:
  "IsPassthrough env gs_uid \<Longrightarrow>
     HandleGSUIDChange env gs_uid gs_primitive_type components xfr on_gpu_thread s
       = s\<lparr>s_last_geometry_shader_bytecode := Some PassEntry\<rparr>"
  by (simp add: HandleGSUIDChange_def)

lemma aux_call_keeps_binding:
  "\<not> IsPassthrough env gs_uid \<Longrightarrow>
     s_last_geometry_shader_bytecode (HandleGSUIDChange env gs_uid gs_primitive_type components xfr False s)
       = s_last_geometry_shader_bytecode s"
  by (simp add: HandleGSUIDChange_def index_cache_def test_and_set_def CompileShaderAsync_call_def
      Let_def split: option.splits)

text \<open>
  Claim C3 (the program at an auxiliary-context call with a passthrough UID). The
  submission context prepares shaders whose geometry UID is 5 and has the entry of UID 5
  bound as its geometry bytecode. An auxiliary-context call with a passthrough geometry
  UID then rebinds that same pointer to the passthrough entry, while the submission
  context's last-seen UID stays 5; an auxiliary-context call with a UID that is not a
  passthrough one leaves the pointer alone.
\<close>

theorem passthrough_aux_call_rebinds_submission:
  "s_last_geometry_shader_bytecode (PrepareShaders (test_env False False) 0 0 0 5 1 True static_state)
     = Some (GsEntry 5)
   \<and> IsPassthrough (test_env False False) 7
   \<and> s_last_geometry_shader_bytecode
       (PrepareShaders (test_env False False) 0 0 0 7 1 False
          (PrepareShaders (test_env False False) 0 0 0 5 1 True static_state))
     = Some PassEntry
   \<and> s_last_geometry_shader_uid
       (PrepareShaders (test_env False False) 0 0 0 7 1 False
          (PrepareShaders (test_env False False) 0 0 0 5 1 True static_state))
     = 5
   \<and> s_last_geometry_shader_bytecode
       (HandleGSUIDChange (test_env False False) 7 0 0 7 False
          (PrepareShaders (test_env False False) 0 0 0 5 1 True static_state))
     = Some PassEntry
   \<and> s_last_geometry_shader_bytecode
       (HandleGSUIDChange (test_env False False) 6 0 0 6 False
          (PrepareShaders (test_env False False) 0 0 0 5 1 True static_state))
     = Some (GsEntry 5)"
  by (simp add: PrepareShaders_def SetCurrentPrimitiveTopology_def ProcCompilationResults_def
      HandleGSUIDChange_def HandlePSUIDChange_def HandleVSUIDChange_def index_cache_def
      test_and_set_def CompileShaderAsync_call_def ByteCodeCacheEntry_ctor_def
      static_state_def test_env_def Let_def)

section \<open>Theorems: failed compiles\<close>

lemma fmt_04i_0: "fmt_04i 0 = ''0000''"
  by (simp add: fmt_04i_def dec.simps [of 0] eval_nat_numeral)

lemma failed_unit_dumps:
  "\<not> cresult w \<Longrightarrow>
     dump_files (GS_ResultHandler env u p w s) =
       (if length (D_DUMP_IDX env @ ''bad_gs_'' @ fmt_04i (gs_num_failures s) @ ''.txt'') < MAX_PATH env
        then dump_files s @ [(D_DUMP_IDX env @ ''bad_gs_'' @ fmt_04i (gs_num_failures s) @ ''.txt'', wu_code w @ error w)]
        else dump_files s)
     \<and> dump_files (PS_ResultHandler env u p w s) =
       dump_files s @ [(D_DUMP_IDX env @ ''bad_ps_'' @ fmt_04i (ps_num_failures s) @ ''.txt'', wu_code w @ error w)]
     \<and> dump_files (VS_ResultHandler env u p w s) =
       dump_files s @ [(D_DUMP_IDX env @ ''bad_vs_'' @ fmt_04i (vs_num_failures s) @ ''.txt'', wu_code w)]"
  by (simp add: GS_ResultHandler_def PS_ResultHandler_def VS_ResultHandler_def Let_def)

lemma failed_unit_alerts:
  "\<not> cresult w \<Longrightarrow>
     map alert_file (alerts (GS_ResultHandler env u p w s)) =
       (if length (D_DUMP_IDX env @ ''bad_gs_'' @ fmt_04i (gs_num_failures s) @ ''.txt'') < MAX_PATH env
        then map alert_file (alerts s) @ [Some (D_DUMP_IDX env @ ''bad_gs_'' @ fmt_04i (gs_num_failures s) @ ''.txt'')]
        else map alert_file (alerts s))
     \<and> map alert_file (alerts (PS_ResultHandler env u p w s)) = map alert_file (alerts s) @ [None]
     \<and> map alert_file (alerts (VS_ResultHandler env u p w s)) = map alert_file (alerts s) @ [None]"
  by (simp add: GS_ResultHandler_def PS_ResultHandler_def VS_ResultHandler_def Let_def)

lemma failed_unit_frame:
  "\<not> cresult w \<Longrightarrow>
     cache_of st (call_ResultHandler env w s) = cache_of st s
     \<and> disk_cache_of st (call_ResultHandler env w s) = disk_cache_of st s
     \<and> log (call_ResultHandler env w s) = log s"
  by (cases st)
     (simp_all add: call_ResultHandler_def GS_ResultHandler_def PS_ResultHandler_def
        VS_ResultHandler_def cache_of_def disk_cache_of_def Let_def
        split: option.splits ResultHandler.splits)

text \<open>
  Claim C5 (the program at failed compiles). The vertex handler is called for a UID
  whose source the compiler rejects; the background thread finishes the unit and the
  drain runs its result handler. The dump file \<open>bad_vs_0000.txt\<close> then holds the source
  text only, without the compiler's diagnostic text, and the alert is given the
  \<open>std::string\<close> object of the file name for its \<open>%s\<close>, so its message does not name the
  file. The geometry result handler writes the source followed by the diagnostic text and
  its alert names the file; the pixel result handler writes both texts too, but its
  alert, like the vertex one, is given the \<open>std::string\<close> object.
\<close>

theorem vertex_failure_dump_lacks_diagnostic:
  "finished (run (test_env False False) [VSChange 3 3 0 9 True, Background 1] static_state)
     = [(vs_unit (test_env False False) 3 (VsEntry 3) 3 0 9)\<lparr>cresult := False, error := ''error X3000''\<rparr>]
   \<and> wu_code (vs_unit (test_env False False) 3 (VsEntry 3) 3 0 9) = ''bad''
   \<and> dump_files (run (test_env False False) [VSChange 3 3 0 9 True, Background 1, DrainCall] static_state)
     = [(''Dump/bad_vs_0000.txt'', ''bad'')]
   \<and> alerts (run (test_env False False) [VSChange 3 3 0 9 True, Background 1, DrainCall] static_state)
     = [PanicAlert Vertex (StdString ''Dump/bad_vs_0000.txt'') ''vs_5_0'' ''error X3000'']
   \<and> map alert_file
        (alerts (run (test_env False False) [VSChange 3 3 0 9 True, Background 1, DrainCall] static_state))
     = [None]
   \<and> dump_files
       (GS_ResultHandler (test_env False False) 3 (GsEntry 3)
          ((gs_unit (test_env False False) 3 (GsEntry 3) 0 0 3)\<lparr>cresult := False, error := ''error X3000''\<rparr>)
          static_state)
     = [(''Dump/bad_gs_0000.txt'', ''gserror X3000'')]
   \<and> map alert_file
        (alerts
          (GS_ResultHandler (test_env False False) 3 (GsEntry 3)
             ((gs_unit (test_env False False) 3 (GsEntry 3) 0 0 3)\<lparr>cresult := False, error := ''error X3000''\<rparr>)
             static_state))
     = [Some ''Dump/bad_gs_0000.txt'']
   \<and> dump_files
       (PS_ResultHandler (test_env False False) 3 (PsEntry 3)
          ((ps_unit (test_env False False) 3 (PsEntry 3) 0 0 0 3)\<lparr>cresult := False, error := ''error X3000''\<rparr>)
          static_state)
     = [(''Dump/bad_ps_0000.txt'', ''pserror X3000'')]
   \<and> map alert_file
        (alerts
          (PS_ResultHandler (test_env False False) 3 (PsEntry 3)
             ((ps_unit (test_env False False) 3 (PsEntry 3) 0 0 0 3)\<lparr>cresult := False, error := ''error X3000''\<rparr>)
             static_state))
     = [None]"
  by (simp add: run_def HandleVSUIDChange_def compiler_thread_def compile_unit_def
      ProcCompilationResults_def call_ResultHandler_def VS_ResultHandler_def GS_ResultHandler_def
      PS_ResultHandler_def vs_unit_def gs_unit_def ps_unit_def NewUnit_def index_cache_def
      test_and_set_def CompileShaderAsync_call_def ByteCodeCacheEntry_ctor_def fmt_04i_0
      static_state_def test_env_def Let_def)

section \<open>Lemmas: what the handlers and PrepareShaders change\<close>

lemmas Proc_fields = Proc_frame [unfolded same_frame_def]

lemma SetTopology_fields:
  "s_last_geometry_shader_bytecode (SetCurrentPrimitiveTopology env g s) = s_last_geometry_shader_bytecode s
   \<and> s_last_pixel_shader_bytecode (SetCurrentPrimitiveTopology env g s) = s_last_pixel_shader_bytecode s
   \<and> s_last_vertex_shader_bytecode (SetCurrentPrimitiveTopology env g s) = s_last_vertex_shader_bytecode s
   \<and> s_last_geometry_shader_uid (SetCurrentPrimitiveTopology env g s) = s_last_geometry_shader_uid s
   \<and> s_last_pixel_shader_uid (SetCurrentPrimitiveTopology env g s) = s_last_pixel_shader_uid s
   \<and> s_last_vertex_shader_uid (SetCurrentPrimitiveTopology env g s) = s_last_vertex_shader_uid s
   \<and> s_last_cpu_geometry_shader_uid (SetCurrentPrimitiveTopology env g s) = s_last_cpu_geometry_shader_uid s
   \<and> s_last_cpu_pixel_shader_uid (SetCurrentPrimitiveTopology env g s) = s_last_cpu_pixel_shader_uid s
   \<and> s_last_cpu_vertex_shader_uid (SetCurrentPrimitiveTopology env g s) = s_last_cpu_vertex_shader_uid s
   \<and> in_flight (SetCurrentPrimitiveTopology env g s) = in_flight s
   \<and> finished (SetCurrentPrimitiveTopology env g s) = finished s
   \<and> m_dirty_pso (SetCurrentPrimitiveTopology env g s) = m_dirty_pso s
   \<and> log (SetCurrentPrimitiveTopology env g s) = log s
   \<and> gs_bytecode_cache (SetCurrentPrimitiveTopology env g s) = gs_bytecode_cache s
   \<and> ps_bytecode_cache (SetCurrentPrimitiveTopology env g s) = ps_bytecode_cache s
   \<and> vs_bytecode_cache (SetCurrentPrimitiveTopology env g s) = vs_bytecode_cache s"
  by (simp add: SetCurrentPrimitiveTopology_def)

lemma SetTopology_flag_set:
  "flag_set st uid (SetCurrentPrimitiveTopology env g s) = flag_set st uid s"
  by (simp add: flag_set_def cache_of_def SetTopology_fields split: stage.splits)

lemma SetTopology_again:
  "s_current_primitive_topology t = s_current_primitive_topology (SetCurrentPrimitiveTopology env g s)
     \<Longrightarrow> SetCurrentPrimitiveTopology env g t = t"
  by (simp add: SetCurrentPrimitiveTopology_def split: if_splits)

lemma HandleGS_fields:
  "s_current_primitive_topology (HandleGSUIDChange env u g c x ctx s) = s_current_primitive_topology s
   \<and> s_last_pixel_shader_bytecode (HandleGSUIDChange env u g c x ctx s) = s_last_pixel_shader_bytecode s
   \<and> s_last_vertex_shader_bytecode (HandleGSUIDChange env u g c x ctx s) = s_last_vertex_shader_bytecode s
   \<and> s_last_geometry_shader_uid (HandleGSUIDChange env u g c x ctx s) = s_last_geometry_shader_uid s
   \<and> s_last_pixel_shader_uid (HandleGSUIDChange env u g c x ctx s) = s_last_pixel_shader_uid s
   \<and> s_last_vertex_shader_uid (HandleGSUIDChange env u g c x ctx s) = s_last_vertex_shader_uid s
   \<and> s_last_cpu_geometry_shader_uid (HandleGSUIDChange env u g c x ctx s) = s_last_cpu_geometry_shader_uid s
   \<and> s_last_cpu_pixel_shader_uid (HandleGSUIDChange env u g c x ctx s) = s_last_cpu_pixel_shader_uid s
   \<and> s_last_cpu_vertex_shader_uid (HandleGSUIDChange env u g c x ctx s) = s_last_cpu_vertex_shader_uid s
   \<and> m_dirty_pso (HandleGSUIDChange env u g c x ctx s) = m_dirty_pso s
   \<and> finished (HandleGSUIDChange env u g c x ctx s) = finished s
   \<and> ps_bytecode_cache (HandleGSUIDChange env u g c x ctx s) = ps_bytecode_cache s
   \<and> vs_bytecode_cache (HandleGSUIDChange env u g c x ctx s) = vs_bytecode_cache s
   \<and> s_last_geometry_shader_bytecode (HandleGSUIDChange env u g c x ctx s) =
       (if IsPassthrough env u then Some PassEntry
        else if ctx then Some (GsEntry u) else s_last_geometry_shader_bytecode s)
   \<and> log (HandleGSUIDChange env u g c x ctx s) =
       log s @ (if IsPassthrough env u then []
                else [LockAcquire, CacheLookup Geometry u, LockRelease]
                     @ (if flag_set Geometry u s then [] else [CompileShaderAsync Geometry u]))"
  by (simp add: HandleGSUIDChange_def index_cache_def test_and_set_def CompileShaderAsync_call_def
      flag_set_def cache_of_def ByteCodeCacheEntry_ctor_def Let_def split: option.splits)

lemma HandlePS_fields:
  "s_current_primitive_topology (HandlePSUIDChange env u a c x b ctx s) = s_current_primitive_topology s
   \<and> s_last_geometry_shader_bytecode (HandlePSUIDChange env u a c x b ctx s) = s_last_geometry_shader_bytecode s
   \<and> s_last_vertex_shader_bytecode (HandlePSUIDChange env u a c x b ctx s) = s_last_vertex_shader_bytecode s
   \<and> s_last_geometry_shader_uid (HandlePSUIDChange env u a c x b ctx s) = s_last_geometry_shader_uid s
   \<and> s_last_pixel_shader_uid (HandlePSUIDChange env u a c x b ctx s) = s_last_pixel_shader_uid s
   \<and> s_last_vertex_shader_uid (HandlePSUIDChange env u a c x b ctx s) = s_last_vertex_shader_uid s
   \<and> s_last_cpu_geometry_shader_uid (HandlePSUIDChange env u a c x b ctx s) = s_last_cpu_geometry_shader_uid s
   \<and> s_last_cpu_pixel_shader_uid (HandlePSUIDChange env u a c x b ctx s) = s_last_cpu_pixel_shader_uid s
   \<and> s_last_cpu_vertex_shader_uid (HandlePSUIDChange env u a c x b ctx s) = s_last_cpu_vertex_shader_uid s
   \<and> m_dirty_pso (HandlePSUIDChange env u a c x b ctx s) = m_dirty_pso s
   \<and> finished (HandlePSUIDChange env u a c x b ctx s) = finished s
   \<and> gs_bytecode_cache (HandlePSUIDChange env u a c x b ctx s) = gs_bytecode_cache s
   \<and> vs_bytecode_cache (HandlePSUIDChange env u a c x b ctx s) = vs_bytecode_cache s
   \<and> s_last_pixel_shader_bytecode (HandlePSUIDChange env u a c x b ctx s) =
       (if ctx then Some (PsEntry u) else s_last_pixel_shader_bytecode s)
   \<and> log (HandlePSUIDChange env u a c x b ctx s) =
       log s @ [LockAcquire, CacheLookup Pixel u, LockRelease]
             @ (if flag_set Pixel u s then [] else [CompileShaderAsync Pixel u])"
  by (simp add: HandlePSUIDChange_def index_cache_def test_and_set_def CompileShaderAsync_call_def
      flag_set_def cache_of_def ByteCodeCacheEntry_ctor_def Let_def split: option.splits)

lemma HandleVS_fields:
  "s_current_primitive_topology (HandleVSUIDChange env u c x b ctx s) = s_current_primitive_topology s
   \<and> s_last_geometry_shader_bytecode (HandleVSUIDChange env u c x b ctx s) = s_last_geometry_shader_bytecode s
   \<and> s_last_pixel_shader_bytecode (HandleVSUIDChange env u c x b ctx s) = s_last_pixel_shader_bytecode s
   \<and> s_last_geometry_shader_uid (HandleVSUIDChange env u c x b ctx s) = s_last_geometry_shader_uid s
   \<and> s_last_pixel_shader_uid (HandleVSUIDChange env u c x b ctx s) = s_last_pixel_shader_uid s
   \<and> s_last_vertex_shader_uid (HandleVSUIDChange env u c x b ctx s) = s_last_vertex_shader_uid s
   \<and> s_last_cpu_geometry_shader_uid (HandleVSUIDChange env u c x b ctx s) = s_last_cpu_geometry_shader_uid s
   \<and> s_last_cpu_pixel_shader_uid (HandleVSUIDChange env u c x b ctx s) = s_last_cpu_pixel_shader_uid s
   \<and> s_last_cpu_vertex_shader_uid (HandleVSUIDChange env u c x b ctx s) = s_last_cpu_vertex_shader_uid s
   \<and> m_dirty_pso (HandleVSUIDChange env u c x b ctx s) = m_dirty_pso s
   \<and> finished (HandleVSUIDChange env u c x b ctx s) = finished s
   \<and> gs_bytecode_cache (HandleVSUIDChange env u c x b ctx s) = gs_bytecode_cache s
   \<and> ps_bytecode_cache (HandleVSUIDChange env u c x b ctx s) = ps_bytecode_cache s
   \<and> s_last_vertex_shader_bytecode (HandleVSUIDChange env u c x b ctx s) =
       (if ctx then Some (VsEntry u) else s_last_vertex_shader_bytecode s)
   \<and> log (HandleVSUIDChange env u c x b ctx s) =
       log s @ [LockAcquire, CacheLookup Vertex u, LockRelease]
             @ (if flag_set Vertex u s then [] else [CompileShaderAsync Vertex u])"
  by (simp add: HandleVSUIDChange_def index_cache_def test_and_set_def CompileShaderAsync_call_def
      flag_set_def cache_of_def ByteCodeCacheEntry_ctor_def Let_def split: option.splits)

lemma Handle_flag_set:
  "flag_set st uid (HandleGSUIDChange env u g c x ctx s) =
     (flag_set st uid s \<or> st = Geometry \<and> uid = u \<and> \<not> IsPassthrough env u)"
  "flag_set st uid (HandlePSUIDChange env u a c x b ctx s) = (flag_set st uid s \<or> st = Pixel \<and> uid = u)"
  "flag_set st uid (HandleVSUIDChange env u c x b ctx s) = (flag_set st uid s \<or> st = Vertex \<and> uid = u)"
  using do_call_flag_set [of st uid env "GSChange u g c x ctx" s]
    do_call_flag_set [of st uid env "PSChange u a c x b ctx" s]
    do_call_flag_set [of st uid env "VSChange u c x b ctx" s]
  by simp_all

lemma PrepareShaders_unchanged:
  "memo_matches env a g c x b ctx s \<Longrightarrow>
     PrepareShaders env a g c x b ctx s =
       (if ctx then ProcCompilationResults env (SetCurrentPrimitiveTopology env g s)
        else SetCurrentPrimitiveTopology env g s)"
  by (simp add: PrepareShaders_def memo_matches_def Let_def Proc_fields SetTopology_fields
      split: if_splits)

lemma PrepareShaders_memo:
  "memo_matches env a g c x b ctx (PrepareShaders env a g c x b ctx s)"
  by (simp add: PrepareShaders_def memo_matches_def Let_def Proc_fields SetTopology_fields
      HandleGS_fields HandlePS_fields HandleVS_fields)

lemma PrepareShaders_topology:
  "s_current_primitive_topology (PrepareShaders env a g c x b ctx s) =
     s_current_primitive_topology (SetCurrentPrimitiveTopology env g s)"
  by (simp add: PrepareShaders_def Let_def Proc_fields SetTopology_fields
      HandleGS_fields HandlePS_fields HandleVS_fields)

lemma PS_dirty:
  "m_dirty_pso (PrepareShaders env a g c x b True s) =
     (if memo_matches env a g c x b True s then m_dirty_pso s else True)"
  by (simp add: PrepareShaders_def memo_matches_def Let_def Proc_fields SetTopology_fields
      HandleGS_fields HandlePS_fields HandleVS_fields)

lemma PS_uids:
  "s_last_geometry_shader_uid (PrepareShaders env a g c x b True s) = GetGeometryShaderUid env g x c
   \<and> s_last_pixel_shader_uid (PrepareShaders env a g c x b True s) = GetPixelShaderUidD3D11 env a c x b
   \<and> s_last_vertex_shader_uid (PrepareShaders env a g c x b True s) = GetVertexShaderUidD3D11 env c x b"
  using PrepareShaders_memo [of env a g c x b True s] by (simp add: memo_matches_def)

lemma PS_ptrs:
  "s_last_geometry_shader_bytecode (PrepareShaders env a g c x b True s) =
       (if GetGeometryShaderUid env g x c = s_last_geometry_shader_uid s
        then s_last_geometry_shader_bytecode s
        else if IsPassthrough env (GetGeometryShaderUid env g x c) then Some PassEntry
        else Some (GsEntry (GetGeometryShaderUid env g x c)))
   \<and> s_last_pixel_shader_bytecode (PrepareShaders env a g c x b True s) =
       (if GetPixelShaderUidD3D11 env a c x b = s_last_pixel_shader_uid s
        then s_last_pixel_shader_bytecode s
        else Some (PsEntry (GetPixelShaderUidD3D11 env a c x b)))
   \<and> s_last_vertex_shader_bytecode (PrepareShaders env a g c x b True s) =
       (if GetVertexShaderUidD3D11 env c x b = s_last_vertex_shader_uid s
        then s_last_vertex_shader_bytecode s
        else Some (VsEntry (GetVertexShaderUidD3D11 env c x b)))"
  by (simp add: PrepareShaders_def Let_def Proc_fields SetTopology_fields
      HandleGS_fields HandlePS_fields HandleVS_fields)

lemma PS_caches:
  "(if GetGeometryShaderUid env g x c = s_last_geometry_shader_uid s
       then gs_bytecode_cache (PrepareShaders env a g c x b True s) =
              gs_bytecode_cache (ProcCompilationResults env (SetCurrentPrimitiveTopology env g s))
       else True)
   \<and> (if GetVertexShaderUidD3D11 env c x b = s_last_vertex_shader_uid s
       then vs_bytecode_cache (PrepareShaders env a g c x b True s) =
              vs_bytecode_cache (ProcCompilationResults env (SetCurrentPrimitiveTopology env g s))
       else True)
   \<and> (if GetPixelShaderUidD3D11 env a c x b = s_last_pixel_shader_uid s
       then ps_bytecode_cache (PrepareShaders env a g c x b True s) =
              ps_bytecode_cache (ProcCompilationResults env (SetCurrentPrimitiveTopology env g s))
       else True)"
  by (simp add: PrepareShaders_def Let_def Proc_fields SetTopology_fields
      HandleGS_fields HandlePS_fields HandleVS_fields)

lemma PS_dispatch_log:
  "filter is_dispatch (log (PrepareShaders env a g c x b True s)) =
       filter is_dispatch (log s)
       @ (if GetGeometryShaderUid env g x c = s_last_geometry_shader_uid s
             \<or> IsPassthrough env (GetGeometryShaderUid env g x c)
             \<or> flag_set Geometry (GetGeometryShaderUid env g x c) s
          then [] else [CompileShaderAsync Geometry (GetGeometryShaderUid env g x c)])
       @ (if GetPixelShaderUidD3D11 env a c x b = s_last_pixel_shader_uid s
             \<or> flag_set Pixel (GetPixelShaderUidD3D11 env a c x b) s
          then [] else [CompileShaderAsync Pixel (GetPixelShaderUidD3D11 env a c x b)])
       @ (if GetVertexShaderUidD3D11 env c x b = s_last_vertex_shader_uid s
             \<or> flag_set Vertex (GetVertexShaderUidD3D11 env c x b) s
          then [] else [CompileShaderAsync Vertex (GetVertexShaderUidD3D11 env c x b)])"
proof -
  define gu where "gu = GetGeometryShaderUid env g x c"
  define pu where "pu = GetPixelShaderUidD3D11 env a c x b"
  define vu where "vu = GetVertexShaderUidD3D11 env c x b"
  define sd where "sd = ProcCompilationResults env (SetCurrentPrimitiveTopology env g s)"
  define gc where "gc = (gu \<noteq> s_last_geometry_shader_uid s)"
  define pc where "pc = (pu \<noteq> s_last_pixel_shader_uid s)"
  define vc where "vc = (vu \<noteq> s_last_vertex_shader_uid s)"
  define s2 where "s2 = sd\<lparr>s_last_geometry_shader_uid := (if gc then gu else s_last_geometry_shader_uid sd),
                          s_last_pixel_shader_uid := (if pc then pu else s_last_pixel_shader_uid sd),
                          s_last_vertex_shader_uid := (if vc then vu else s_last_vertex_shader_uid sd),
                          m_dirty_pso := True\<rparr>"
  define s3 where "s3 = (if gc then HandleGSUIDChange env gu g c x True s2 else s2)"
  define s4 where "s4 = (if pc then HandlePSUIDChange env pu a c x b True s3 else s3)"
  define s5 where "s5 = (if vc then HandleVSUIDChange env vu c x b True s4 else s4)"
  have P: "PrepareShaders env a g c x b True s = (if \<not> gc \<and> \<not> pc \<and> \<not> vc then sd else s5)"
    by (simp add: PrepareShaders_def Let_def gu_def pu_def vu_def sd_def gc_def pc_def vc_def
        s2_def s3_def s4_def s5_def Proc_fields SetTopology_fields)
  have fd: "flag_set st uid sd = flag_set st uid s" for st uid
    by (simp add: sd_def Proc_flag_set SetTopology_flag_set)
  have f2: "flag_set st uid s2 = flag_set st uid s" for st uid
    using fd [of st uid] by (simp add: s2_def flag_set_def cache_of_def split: stage.splits)
  have ld: "filter is_dispatch (log sd) = filter is_dispatch (log s)"
    by (simp add: sd_def Proc_is_dispatch SetTopology_fields)
  have l2: "filter is_dispatch (log s2) = filter is_dispatch (log s)"
    using ld by (simp add: s2_def)
  have l3: "filter is_dispatch (log s3) = filter is_dispatch (log s)
       @ (if \<not> gc \<or> IsPassthrough env gu \<or> flag_set Geometry gu s then []
          else [CompileShaderAsync Geometry gu])"
    using l2 by (simp add: s3_def HandleGS_fields f2)
  have f3: "flag_set Pixel uid s3 = flag_set Pixel uid s" "flag_set Vertex uid s3 = flag_set Vertex uid s" for uid
    by (simp_all add: s3_def Handle_flag_set f2)
  have l4: "filter is_dispatch (log s4) = filter is_dispatch (log s3)
       @ (if \<not> pc \<or> flag_set Pixel pu s then [] else [CompileShaderAsync Pixel pu])"
    by (simp add: s4_def HandlePS_fields f3)
  have f4: "flag_set Vertex uid s4 = flag_set Vertex uid s" for uid
    by (simp add: s4_def Handle_flag_set f3)
  have l5: "filter is_dispatch (log s5) = filter is_dispatch (log s4)
       @ (if \<not> vc \<or> flag_set Vertex vu s then [] else [CompileShaderAsync Vertex vu])"
    by (simp add: s5_def HandleVS_fields f4)
  have "filter is_dispatch (log (if \<not> gc \<and> \<not> pc \<and> \<not> vc then sd else s5)) =
       filter is_dispatch (log s)
       @ (if \<not> gc \<or> IsPassthrough env gu \<or> flag_set Geometry gu s then []
          else [CompileShaderAsync Geometry gu])
       @ (if \<not> pc \<or> flag_set Pixel pu s then [] else [CompileShaderAsync Pixel pu])
       @ (if \<not> vc \<or> flag_set Vertex vu s then [] else [CompileShaderAsync Vertex vu])"
    by (simp add: ld l3 l4 l5)
  then show ?thesis
    by (simp add: P gu_def pu_def vu_def gc_def pc_def vc_def)
qed

lemma Proc_nothing_finished:
  "finished s = [] \<Longrightarrow>
     gs_bytecode_cache (ProcCompilationResults env (SetCurrentPrimitiveTopology env g s)) = gs_bytecode_cache s
     \<and> ps_bytecode_cache (ProcCompilationResults env (SetCurrentPrimitiveTopology env g s)) = ps_bytecode_cache s
     \<and> vs_bytecode_cache (ProcCompilationResults env (SetCurrentPrimitiveTopology env g s)) = vs_bytecode_cache s"
  by (simp add: ProcCompilationResults_def SetTopology_fields)

lemma first_prepare_eval:
  "s_last_geometry_shader_uid (PrepareShaders (test_env False False) 0 2 2 5 3 True static_state) = 5
   \<and> s_last_pixel_shader_uid (PrepareShaders (test_env False False) 0 2 2 5 3 True static_state) = 3
   \<and> s_last_vertex_shader_uid (PrepareShaders (test_env False False) 0 2 2 5 3 True static_state) = 2
   \<and> s_last_geometry_shader_bytecode (PrepareShaders (test_env False False) 0 2 2 5 3 True static_state) = Some (GsEntry 5)
   \<and> s_last_pixel_shader_bytecode (PrepareShaders (test_env False False) 0 2 2 5 3 True static_state) = Some (PsEntry 3)
   \<and> s_last_vertex_shader_bytecode (PrepareShaders (test_env False False) 0 2 2 5 3 True static_state) = Some (VsEntry 2)
   \<and> log (PrepareShaders (test_env False False) 0 2 2 5 3 True static_state) =
       [Drain, LockAcquire, CacheLookup Geometry 5, LockRelease, CompileShaderAsync Geometry 5,
        LockAcquire, CacheLookup Pixel 3, LockRelease, CompileShaderAsync Pixel 3,
        LockAcquire, CacheLookup Vertex 2, LockRelease, CompileShaderAsync Vertex 2]
   \<and> ps_bytecode_cache (PrepareShaders (test_env False False) 0 2 2 5 3 True static_state) 4 = None
   \<and> finished (PrepareShaders (test_env False False) 0 2 2 5 3 True static_state) = []"
  by (simp add: PrepareShaders_def SetCurrentPrimitiveTopology_def ProcCompilationResults_def
      HandleGSUIDChange_def HandlePSUIDChange_def HandleVSUIDChange_def index_cache_def
      test_and_set_def CompileShaderAsync_call_def ByteCodeCacheEntry_ctor_def
      static_state_def test_env_def Let_def)

section \<open>Theorems: PrepareShaders\<close>

text \<open>
  Claim C4. A second call of \<open>PrepareShaders\<close> with the same graphics state from the
  same execution context only drains the finished units (on the submission context) or
  does nothing at all (on an auxiliary context): it adds no lock acquisition, no cache
  lookup and no compile dispatch to the log and enqueues nothing. In general, when no
  stage's UID differs from the calling context's last-seen UIDs, the call returns right
  after the comparison, having set the topology and, on the submission context, drained.
\<close>

theorem PrepareShaders_second_call_returns_early:
  "PrepareShaders env a g c x b ctx (PrepareShaders env a g c x b ctx s) =
     (if ctx then ProcCompilationResults env (PrepareShaders env a g c x b ctx s)
      else PrepareShaders env a g c x b ctx s)
   \<and> filter is_lookup_lock_dispatch (log (PrepareShaders env a g c x b ctx (PrepareShaders env a g c x b ctx s)))
       = filter is_lookup_lock_dispatch (log (PrepareShaders env a g c x b ctx s))
   \<and> in_flight (PrepareShaders env a g c x b ctx (PrepareShaders env a g c x b ctx s))
       = in_flight (PrepareShaders env a g c x b ctx s)
   \<and> (memo_matches env a g c x b ctx s \<longrightarrow>
        PrepareShaders env a g c x b ctx s =
          (if ctx then ProcCompilationResults env (SetCurrentPrimitiveTopology env g s)
           else SetCurrentPrimitiveTopology env g s)
        \<and> filter is_lookup_lock_dispatch (log (PrepareShaders env a g c x b ctx s))
            = filter is_lookup_lock_dispatch (log s)
        \<and> in_flight (PrepareShaders env a g c x b ctx s) = in_flight s)"
proof -
  let ?s1 = "PrepareShaders env a g c x b ctx s"
  have again: "SetCurrentPrimitiveTopology env g ?s1 = ?s1"
    by (rule SetTopology_again) (rule PrepareShaders_topology)
  have second: "PrepareShaders env a g c x b ctx ?s1 = (if ctx then ProcCompilationResults env ?s1 else ?s1)"
    by (simp only: PrepareShaders_unchanged [OF PrepareShaders_memo] again)
  have first: "PrepareShaders env a g c x b ctx s =
          (if ctx then ProcCompilationResults env (SetCurrentPrimitiveTopology env g s)
           else SetCurrentPrimitiveTopology env g s)" if "memo_matches env a g c x b ctx s"
    using PrepareShaders_unchanged [OF that] .
  show ?thesis
    using second first
    by (auto simp: Proc_lld Proc_fields SetTopology_fields)
qed



theorem PrepareShaders_second_call_returns_early_witness:
  "memo_matches (test_env False False) 0 2 0 0 0 True static_state
   \<and> PrepareShaders (test_env False False) 0 2 0 0 0 True static_state =
       ProcCompilationResults (test_env False False)
         (SetCurrentPrimitiveTopology (test_env False False) 2 static_state)
   \<and> filter is_lookup_lock_dispatch (log (PrepareShaders (test_env False False) 0 2 0 0 0 True static_state)) = []
   \<and> in_flight (PrepareShaders (test_env False False) 0 2 0 0 0 True static_state) = []
   \<and> PrepareShaders (test_env False False) 0 2 0 5 1 False
        (PrepareShaders (test_env False False) 0 2 0 5 1 False static_state)
       = PrepareShaders (test_env False False) 0 2 0 5 1 False static_state"
proof -
  have h: "memo_matches (test_env False False) 0 2 0 0 0 True static_state"
    by (simp add: memo_matches_def test_env_def static_state_def)
  have l: "log static_state = []" "in_flight static_state = []"
    by (simp_all add: static_state_def)
  have a: "PrepareShaders (test_env False False) 0 2 0 0 0 True static_state =
       ProcCompilationResults (test_env False False)
         (SetCurrentPrimitiveTopology (test_env False False) 2 static_state)
     \<and> filter is_lookup_lock_dispatch (log (PrepareShaders (test_env False False) 0 2 0 0 0 True static_state))
         = filter is_lookup_lock_dispatch (log static_state)
     \<and> in_flight (PrepareShaders (test_env False False) 0 2 0 0 0 True static_state) = in_flight static_state"
    using h PrepareShaders_second_call_returns_early
      [of "test_env False False" 0 2 0 0 0 True static_state, unfolded if_True]
    by blast
  have b: "PrepareShaders (test_env False False) 0 2 0 5 1 False
        (PrepareShaders (test_env False False) 0 2 0 5 1 False static_state)
       = PrepareShaders (test_env False False) 0 2 0 5 1 False static_state"
    using PrepareShaders_second_call_returns_early
      [of "test_env False False" 0 2 0 5 1 False static_state, unfolded if_False]
    by blast
  show ?thesis
    using h a [unfolded l filter.simps] b by blast
qed

text \<open>
  Claim C7 (amended). On the submission context \<open>PrepareShaders\<close> sets the
  pipeline-dirty flag when some stage's UID changed and leaves the flag as it is when
  none did; the active UID and the active entry pointer of a stage change only when that
  stage's UID changed (to the new UID and its entry, or the passthrough entry); the
  compiles it dispatches are those of the changed stages whose entry had its one-shot
  flag clear, so a call where only the pixel UID changed dispatches at most the pixel
  compile and leaves the geometry and vertex active pointers as before. The entries of
  an unchanged stage are as the drain at the start of the call leaves them: exactly as
  before when no finished unit was waiting, and with the bytecode a waiting unit
  publishes otherwise.
\<close>

theorem PrepareShaders_submission_frame:
  "m_dirty_pso (PrepareShaders env a g c x b True s) =
     (if memo_matches env a g c x b True s then m_dirty_pso s else True)
   \<and> s_last_geometry_shader_uid (PrepareShaders env a g c x b True s) = GetGeometryShaderUid env g x c
   \<and> s_last_pixel_shader_uid (PrepareShaders env a g c x b True s) = GetPixelShaderUidD3D11 env a c x b
   \<and> s_last_vertex_shader_uid (PrepareShaders env a g c x b True s) = GetVertexShaderUidD3D11 env c x b
   \<and> s_last_geometry_shader_bytecode (PrepareShaders env a g c x b True s) =
       (if GetGeometryShaderUid env g x c = s_last_geometry_shader_uid s
        then s_last_geometry_shader_bytecode s
        else if IsPassthrough env (GetGeometryShaderUid env g x c) then Some PassEntry
        else Some (GsEntry (GetGeometryShaderUid env g x c)))
   \<and> s_last_pixel_shader_bytecode (PrepareShaders env a g c x b True s) =
       (if GetPixelShaderUidD3D11 env a c x b = s_last_pixel_shader_uid s
        then s_last_pixel_shader_bytecode s
        else Some (PsEntry (GetPixelShaderUidD3D11 env a c x b)))
   \<and> s_last_vertex_shader_bytecode (PrepareShaders env a g c x b True s) =
       (if GetVertexShaderUidD3D11 env c x b = s_last_vertex_shader_uid s
        then s_last_vertex_shader_bytecode s
        else Some (VsEntry (GetVertexShaderUidD3D11 env c x b)))
   \<and> filter is_dispatch (log (PrepareShaders env a g c x b True s)) =
       filter is_dispatch (log s)
       @ (if GetGeometryShaderUid env g x c = s_last_geometry_shader_uid s
             \<or> IsPassthrough env (GetGeometryShaderUid env g x c)
             \<or> flag_set Geometry (GetGeometryShaderUid env g x c) s
          then [] else [CompileShaderAsync Geometry (GetGeometryShaderUid env g x c)])
       @ (if GetPixelShaderUidD3D11 env a c x b = s_last_pixel_shader_uid s
             \<or> flag_set Pixel (GetPixelShaderUidD3D11 env a c x b) s
          then [] else [CompileShaderAsync Pixel (GetPixelShaderUidD3D11 env a c x b)])
       @ (if GetVertexShaderUidD3D11 env c x b = s_last_vertex_shader_uid s
             \<or> flag_set Vertex (GetVertexShaderUidD3D11 env c x b) s
          then [] else [CompileShaderAsync Vertex (GetVertexShaderUidD3D11 env c x b)])
   \<and> (if GetGeometryShaderUid env g x c = s_last_geometry_shader_uid s
       then gs_bytecode_cache (PrepareShaders env a g c x b True s) =
              gs_bytecode_cache (ProcCompilationResults env (SetCurrentPrimitiveTopology env g s))
       else True)
   \<and> (if GetVertexShaderUidD3D11 env c x b = s_last_vertex_shader_uid s
       then vs_bytecode_cache (PrepareShaders env a g c x b True s) =
              vs_bytecode_cache (ProcCompilationResults env (SetCurrentPrimitiveTopology env g s))
       else True)
   \<and> (if GetPixelShaderUidD3D11 env a c x b = s_last_pixel_shader_uid s
       then ps_bytecode_cache (PrepareShaders env a g c x b True s) =
              ps_bytecode_cache (ProcCompilationResults env (SetCurrentPrimitiveTopology env g s))
       else True)
   \<and> (finished s = [] \<longrightarrow>
        gs_bytecode_cache (ProcCompilationResults env (SetCurrentPrimitiveTopology env g s)) = gs_bytecode_cache s
        \<and> ps_bytecode_cache (ProcCompilationResults env (SetCurrentPrimitiveTopology env g s)) = ps_bytecode_cache s
        \<and> vs_bytecode_cache (ProcCompilationResults env (SetCurrentPrimitiveTopology env g s)) = vs_bytecode_cache s)"
  using PS_dirty [of env a g c x b s] PS_uids [of env a g c x b s] PS_ptrs [where env = env and a = a and g = g and c = c and x = x and b = b and s = s]
    PS_dispatch_log [of env a g c x b s] PS_caches [where env = env and a = a and g = g and c = c and x = x and b = b and s = s]
    Proc_nothing_finished [of s env g]
  by (intro conjI) blast+

theorem pixel_only_call_publishes_geometry_entry:
  "GetGeometryShaderUid (test_env False False) 2 5 2 = s_last_geometry_shader_uid three_finished_state
   \<and> GetVertexShaderUidD3D11 (test_env False False) 2 5 4 = s_last_vertex_shader_uid three_finished_state
   \<and> GetPixelShaderUidD3D11 (test_env False False) 0 2 5 4 \<noteq> s_last_pixel_shader_uid three_finished_state
   \<and> s_last_geometry_shader_bytecode three_finished_state = Some (GsEntry 5)
   \<and> s_last_geometry_shader_bytecode
        (PrepareShaders (test_env False False) 0 2 2 5 4 True three_finished_state) = Some (GsEntry 5)
   \<and> s_last_vertex_shader_bytecode three_finished_state = Some (VsEntry 2)
   \<and> s_last_vertex_shader_bytecode
        (PrepareShaders (test_env False False) 0 2 2 5 4 True three_finished_state) = Some (VsEntry 2)
   \<and> GetActiveGeometryShaderBytecode three_finished_state = Some zero_bytecode
   \<and> GetActiveGeometryShaderBytecode
        (PrepareShaders (test_env False False) 0 2 2 5 4 True three_finished_state)
       = Some \<lparr>pShaderBytecode = Some [1, 2, 3], BytecodeLength = 3\<rparr>
   \<and> GetActiveVertexShaderBytecode three_finished_state = Some zero_bytecode
   \<and> GetActiveVertexShaderBytecode
        (PrepareShaders (test_env False False) 0 2 2 5 4 True three_finished_state)
       = Some \<lparr>pShaderBytecode = Some [1, 2, 3], BytecodeLength = 3\<rparr>
   \<and> deref three_finished_state (GsEntry 5)
       = Some \<lparr>m_shader_bytecode = zero_bytecode, m_compiled = False, m_initialized = True, code = []\<rparr>
   \<and> deref (PrepareShaders (test_env False False) 0 2 2 5 4 True three_finished_state) (GsEntry 5)
       = Some \<lparr>m_shader_bytecode = \<lparr>pShaderBytecode = Some [1, 2, 3], BytecodeLength = 3\<rparr>,
               m_compiled = True, m_initialized = True, code = []\<rparr>
   \<and> gs_bytecode_cache (PrepareShaders (test_env False False) 0 2 2 5 4 True three_finished_state)
       \<noteq> gs_bytecode_cache three_finished_state"
proof -
  have e: "GetGeometryShaderUid (test_env False False) 2 5 2 = s_last_geometry_shader_uid three_finished_state
   \<and> GetVertexShaderUidD3D11 (test_env False False) 2 5 4 = s_last_vertex_shader_uid three_finished_state
   \<and> GetPixelShaderUidD3D11 (test_env False False) 0 2 5 4 \<noteq> s_last_pixel_shader_uid three_finished_state
   \<and> s_last_geometry_shader_bytecode three_finished_state = Some (GsEntry 5)
   \<and> s_last_geometry_shader_bytecode
        (PrepareShaders (test_env False False) 0 2 2 5 4 True three_finished_state) = Some (GsEntry 5)
   \<and> s_last_vertex_shader_bytecode three_finished_state = Some (VsEntry 2)
   \<and> s_last_vertex_shader_bytecode
        (PrepareShaders (test_env False False) 0 2 2 5 4 True three_finished_state) = Some (VsEntry 2)
   \<and> GetActiveGeometryShaderBytecode three_finished_state = Some zero_bytecode
   \<and> GetActiveGeometryShaderBytecode
        (PrepareShaders (test_env False False) 0 2 2 5 4 True three_finished_state)
       = Some \<lparr>pShaderBytecode = Some [1, 2, 3], BytecodeLength = 3\<rparr>
   \<and> GetActiveVertexShaderBytecode three_finished_state = Some zero_bytecode
   \<and> GetActiveVertexShaderBytecode
        (PrepareShaders (test_env False False) 0 2 2 5 4 True three_finished_state)
       = Some \<lparr>pShaderBytecode = Some [1, 2, 3], BytecodeLength = 3\<rparr>
   \<and> deref three_finished_state (GsEntry 5)
       = Some \<lparr>m_shader_bytecode = zero_bytecode, m_compiled = False, m_initialized = True, code = []\<rparr>
   \<and> deref (PrepareShaders (test_env False False) 0 2 2 5 4 True three_finished_state) (GsEntry 5)
       = Some \<lparr>m_shader_bytecode = \<lparr>pShaderBytecode = Some [1, 2, 3], BytecodeLength = 3\<rparr>,
               m_compiled = True, m_initialized = True, code = []\<rparr>"
    by (simp add: three_finished_state_def PrepareShaders_def SetCurrentPrimitiveTopology_def
        ProcCompilationResults_def HandleGSUIDChange_def HandlePSUIDChange_def HandleVSUIDChange_def
        index_cache_def test_and_set_def CompileShaderAsync_call_def ByteCodeCacheEntry_ctor_def
        Init_def Clear_def OpenAndRead_def compiler_thread_def compile_unit_def
        call_ResultHandler_def PS_ResultHandler_def VS_ResultHandler_def GS_ResultHandler_def
        PushByteCode_def upd_entry_def upd_map_def publish_def D3DBlob_ctor_def Data_def Size_def
        ps_unit_def vs_unit_def gs_unit_def NewUnit_def deref_def zero_bytecode_def
        GetActiveGeometryShaderBytecode_def GetActiveVertexShaderBytecode_def
        static_state_def test_env_def Let_def)
  from e have "deref (PrepareShaders (test_env False False) 0 2 2 5 4 True three_finished_state) (GsEntry 5)
      \<noteq> deref three_finished_state (GsEntry 5)"
    by simp
  then have "gs_bytecode_cache (PrepareShaders (test_env False False) 0 2 2 5 4 True three_finished_state)
       \<noteq> gs_bytecode_cache three_finished_state"
    by (auto simp: deref_def)
  with e show ?thesis by blast
qed

theorem PrepareShaders_submission_frame_witness:
  "\<not> memo_matches (test_env False False) 0 2 2 5 3 True static_state
   \<and> m_dirty_pso (PrepareShaders (test_env False False) 0 2 2 5 3 True static_state)
   \<and> filter is_dispatch (log (PrepareShaders (test_env False False) 0 2 2 5 3 True static_state))
       = [CompileShaderAsync Geometry 5, CompileShaderAsync Pixel 3, CompileShaderAsync Vertex 2]
   \<and> memo_matches (test_env False False) 0 2 2 5 3 True
        ((PrepareShaders (test_env False False) 0 2 2 5 3 True static_state)\<lparr>m_dirty_pso := False\<rparr>)
   \<and> \<not> m_dirty_pso
        (PrepareShaders (test_env False False) 0 2 2 5 3 True
          ((PrepareShaders (test_env False False) 0 2 2 5 3 True static_state)\<lparr>m_dirty_pso := False\<rparr>))
   \<and> filter is_dispatch
        (log (PrepareShaders (test_env False False) 0 2 2 5 3 True
          ((PrepareShaders (test_env False False) 0 2 2 5 3 True static_state)\<lparr>m_dirty_pso := False\<rparr>)))
       = [CompileShaderAsync Geometry 5, CompileShaderAsync Pixel 3, CompileShaderAsync Vertex 2]
   \<and> m_dirty_pso
        (PrepareShaders (test_env False False) 0 2 2 5 4 True
          ((PrepareShaders (test_env False False) 0 2 2 5 3 True static_state)\<lparr>m_dirty_pso := False\<rparr>))
   \<and> filter is_dispatch
        (log (PrepareShaders (test_env False False) 0 2 2 5 4 True
          ((PrepareShaders (test_env False False) 0 2 2 5 3 True static_state)\<lparr>m_dirty_pso := False\<rparr>)))
       = [CompileShaderAsync Geometry 5, CompileShaderAsync Pixel 3, CompileShaderAsync Vertex 2,
          CompileShaderAsync Pixel 4]
   \<and> s_last_geometry_shader_bytecode
        (PrepareShaders (test_env False False) 0 2 2 5 4 True
          ((PrepareShaders (test_env False False) 0 2 2 5 3 True static_state)\<lparr>m_dirty_pso := False\<rparr>))
       = Some (GsEntry 5)
   \<and> s_last_pixel_shader_bytecode
        (PrepareShaders (test_env False False) 0 2 2 5 4 True
          ((PrepareShaders (test_env False False) 0 2 2 5 3 True static_state)\<lparr>m_dirty_pso := False\<rparr>))
       = Some (PsEntry 4)
   \<and> s_last_vertex_shader_bytecode
        (PrepareShaders (test_env False False) 0 2 2 5 4 True
          ((PrepareShaders (test_env False False) 0 2 2 5 3 True static_state)\<lparr>m_dirty_pso := False\<rparr>))
       = Some (VsEntry 2)
   \<and> finished ((PrepareShaders (test_env False False) 0 2 2 5 3 True static_state)\<lparr>m_dirty_pso := False\<rparr>) = []
   \<and> gs_bytecode_cache
        (PrepareShaders (test_env False False) 0 2 2 5 4 True
          ((PrepareShaders (test_env False False) 0 2 2 5 3 True static_state)\<lparr>m_dirty_pso := False\<rparr>))
       = gs_bytecode_cache ((PrepareShaders (test_env False False) 0 2 2 5 3 True static_state)\<lparr>m_dirty_pso := False\<rparr>)
   \<and> vs_bytecode_cache
        (PrepareShaders (test_env False False) 0 2 2 5 4 True
          ((PrepareShaders (test_env False False) 0 2 2 5 3 True static_state)\<lparr>m_dirty_pso := False\<rparr>))
       = vs_bytecode_cache ((PrepareShaders (test_env False False) 0 2 2 5 3 True static_state)\<lparr>m_dirty_pso := False\<rparr>)"
proof -
  let ?E = "test_env False False"
  let ?s1 = "PrepareShaders ?E 0 2 2 5 3 True static_state"
  let ?t = "?s1\<lparr>m_dirty_pso := False\<rparr>"
  have u: "GetGeometryShaderUid ?E 2 5 2 = 5" "GetPixelShaderUidD3D11 ?E 0 2 5 3 = 3"
    "GetPixelShaderUidD3D11 ?E 0 2 5 4 = 4" "GetVertexShaderUidD3D11 ?E 2 5 3 = 2"
    "GetVertexShaderUidD3D11 ?E 2 5 4 = 2" "\<not> IsPassthrough ?E 5"
    by (simp_all add: test_env_def)
  have z: "s_last_geometry_shader_uid static_state = 0" "s_last_pixel_shader_uid static_state = 0"
    "s_last_vertex_shader_uid static_state = 0" "log static_state = []"
    "\<not> flag_set Geometry 5 static_state" "\<not> flag_set Pixel 3 static_state"
    "\<not> flag_set Vertex 2 static_state"
    by (simp_all add: static_state_def flag_set_def cache_of_def)
  have m0: "\<not> memo_matches ?E 0 2 2 5 3 True static_state"
    by (simp add: memo_matches_def u z)
  have m1: "memo_matches ?E 0 2 2 5 3 True ?t" "\<not> memo_matches ?E 0 2 2 5 4 True ?t"
    by (simp_all add: memo_matches_def u first_prepare_eval)
  have f: "\<not> flag_set Pixel 4 ?t"
    by (simp add: flag_set_def cache_of_def first_prepare_eval)
  have A: "m_dirty_pso ?s1 \<and> filter is_dispatch (log ?s1)
       = [CompileShaderAsync Geometry 5, CompileShaderAsync Pixel 3, CompileShaderAsync Vertex 2]"
    using PrepareShaders_submission_frame [of ?E 0 2 2 5 3 static_state] m0 u z by simp
  have B: "\<not> m_dirty_pso (PrepareShaders ?E 0 2 2 5 3 True ?t)
       \<and> filter is_dispatch (log (PrepareShaders ?E 0 2 2 5 3 True ?t))
       = [CompileShaderAsync Geometry 5, CompileShaderAsync Pixel 3, CompileShaderAsync Vertex 2]"
    using PrepareShaders_submission_frame [of ?E 0 2 2 5 3 ?t] m1 u A by (simp add: first_prepare_eval)
  have C: "m_dirty_pso (PrepareShaders ?E 0 2 2 5 4 True ?t)
       \<and> filter is_dispatch (log (PrepareShaders ?E 0 2 2 5 4 True ?t))
       = [CompileShaderAsync Geometry 5, CompileShaderAsync Pixel 3, CompileShaderAsync Vertex 2,
          CompileShaderAsync Pixel 4]
       \<and> s_last_geometry_shader_bytecode (PrepareShaders ?E 0 2 2 5 4 True ?t) = Some (GsEntry 5)
       \<and> s_last_pixel_shader_bytecode (PrepareShaders ?E 0 2 2 5 4 True ?t) = Some (PsEntry 4)
       \<and> s_last_vertex_shader_bytecode (PrepareShaders ?E 0 2 2 5 4 True ?t) = Some (VsEntry 2)"
    using PrepareShaders_submission_frame [of ?E 0 2 2 5 4 ?t] m1 u A f by (simp add: first_prepare_eval)
  have fin: "finished ?t = []"
    by (simp add: first_prepare_eval)
  have D: "gs_bytecode_cache (PrepareShaders ?E 0 2 2 5 4 True ?t) = gs_bytecode_cache ?t
       \<and> vs_bytecode_cache (PrepareShaders ?E 0 2 2 5 4 True ?t) = vs_bytecode_cache ?t"
    using PrepareShaders_submission_frame [of ?E 0 2 2 5 4 ?t] fin u by (simp add: first_prepare_eval)
  show ?thesis using m0 m1 A B C D fin by blast
qed

section \<open>Lemmas: the spin loop of TestShaders\<close>

lemma loop_result_compiled:
  assumes "TestShaders_loop env sched count s = Some s'"
  shows "g_ActiveConfig_bFullAsyncShaderCompilation env \<or> active_compiled s'"
proof (rule TestShaders_loop.raw_induct
    [where P = "\<lambda>env sched count s s'. g_ActiveConfig_bFullAsyncShaderCompilation env \<or> active_compiled s'",
     OF _ assms])
  fix loop :: "env \<Rightarrow> (nat \<Rightarrow> nat) \<Rightarrow> nat \<Rightarrow> state \<Rightarrow> state option"
  fix env sched count s s'
  assume IH: "\<And>env sched count s y. loop env sched count s = Some y \<Longrightarrow>
                g_ActiveConfig_bFullAsyncShaderCompilation env \<or> active_compiled y"
    and step: "(if active_compiled s then Some s
          else let s1 = ProcCompilationResults env s
               in if g_ActiveConfig_bFullAsyncShaderCompilation env then Some s1
                  else loop env sched (count + 1) (cYield env sched count s1)) = Some s'"
  show "g_ActiveConfig_bFullAsyncShaderCompilation env \<or> active_compiled s'"
  proof (cases "active_compiled s")
    case True
    with step show ?thesis by simp
  next
    case False
    show ?thesis
    proof (cases "g_ActiveConfig_bFullAsyncShaderCompilation env")
      case True
      then show ?thesis by simp
    next
      case async: False
      with False step
      have "loop env sched (count + 1) (cYield env sched count (ProcCompilationResults env s)) = Some s'"
        by (simp add: Let_def)
      then show ?thesis by (rule IH)
    qed
  qed
qed

lemma loop_ready: "active_compiled s \<Longrightarrow> TestShaders_loop env sched count s = Some s"
  by (subst TestShaders_loop.simps) simp

lemma loop_async:
  "\<not> active_compiled s \<Longrightarrow> g_ActiveConfig_bFullAsyncShaderCompilation env \<Longrightarrow>
     TestShaders_loop env sched count s = Some (ProcCompilationResults env s)"
  by (subst TestShaders_loop.simps) simp

lemma loop_spin:
  "\<not> active_compiled s \<Longrightarrow> \<not> g_ActiveConfig_bFullAsyncShaderCompilation env \<Longrightarrow>
     TestShaders_loop env sched count s =
       TestShaders_loop env sched (Suc count) (cYield env sched count (ProcCompilationResults env s))"
  by (subst TestShaders_loop.simps) (simp add: Let_def)

lemma active_compiled_no_null:
  "active_compiled s \<Longrightarrow>
     s_last_geometry_shader_bytecode s \<noteq> None \<and> s_last_pixel_shader_bytecode s \<noteq> None
     \<and> s_last_vertex_shader_bytecode s \<noteq> None"
  by (auto simp: active_compiled_def split: option.splits)


lemmas eval_defs = PrepareShaders_def SetCurrentPrimitiveTopology_def ProcCompilationResults_def
      HandleGSUIDChange_def HandlePSUIDChange_def HandleVSUIDChange_def index_cache_def
      test_and_set_def CompileShaderAsync_call_def ByteCodeCacheEntry_ctor_def
      Init_def Clear_def OpenAndRead_def compiler_thread_def compile_unit_def
      call_ResultHandler_def PS_ResultHandler_def VS_ResultHandler_def GS_ResultHandler_def
      PushByteCode_def upd_entry_def upd_map_def publish_def D3DBlob_ctor_def Data_def Size_def
      ps_unit_def vs_unit_def gs_unit_def NewUnit_def cYield_def
      active_compiled_def entry_compiled_def deref_def zero_bytecode_def
      static_state_def test_env_def Let_def

lemma pending_eval:
  "\<not> active_compiled (pending_state fa)
   \<and> s_last_geometry_shader_bytecode (pending_state fa) = Some PassEntry
   \<and> s_last_pixel_shader_bytecode (pending_state fa) = Some (PsEntry 3)
   \<and> s_last_vertex_shader_bytecode (pending_state fa) = Some (VsEntry 2)
   \<and> \<not> active_compiled (cYield (test_env False fa) (\<lambda>n. 2) 0 (ProcCompilationResults (test_env False fa) (pending_state fa)))
   \<and> active_compiled
        (ProcCompilationResults (test_env False fa)
          (cYield (test_env False fa) (\<lambda>n. 2) 0 (ProcCompilationResults (test_env False fa) (pending_state fa))))
   \<and> \<not> active_compiled (compiler_thread (test_env False fa) 2 (pending_state fa))
   \<and> active_compiled (ProcCompilationResults (test_env False fa) (compiler_thread (test_env False fa) 2 (pending_state fa)))"
  by (simp add: pending_state_def eval_defs)

lemma ready_eval:
  "active_compiled ready_state
   \<and> log ready_state = [LockRelease, Drain, LockAcquire, CacheLookup Pixel 3, LockRelease, CompileShaderAsync Pixel 3,
        LockAcquire, CacheLookup Vertex 2, LockRelease, CompileShaderAsync Vertex 2, Drain, DiskAppend Pixel 3, DiskAppend Vertex 2,
        LockAcquire, CacheLookup Pixel 4, LockRelease, CompileShaderAsync Pixel 4,
        LockAcquire, CacheLookup Vertex 2, LockRelease]
   \<and> finished ready_state = [(ps_unit (test_env False True) 4 (PsEntry 4) 0 2 7 4)\<lparr>cresult := True, shaderbytecode := [1, 2, 3]\<rparr>]"
  by (simp add: ready_state_def pending_state_def eval_defs)


lemma active_compiled_cYield: "active_compiled (cYield env sched count s) = active_compiled s"
  by (simp add: cYield_def compiler_thread_def active_compiled_def entry_compiled_def deref_def
      split: option.splits entry_ptr.splits)

lemma TestShaders_null:
  "s_last_geometry_shader_bytecode s = None \<or> s_last_pixel_shader_bytecode s = None
     \<or> s_last_vertex_shader_bytecode s = None \<Longrightarrow> TestShaders env sched s = Some (False, s)"
  by (auto simp: TestShaders_def)

lemma TestShaders_not_null:
  "\<not> (s_last_geometry_shader_bytecode s = None \<or> s_last_pixel_shader_bytecode s = None
     \<or> s_last_vertex_shader_bytecode s = None) \<Longrightarrow>
   TestShaders env sched s =
     (case TestShaders_loop env sched 0 s of None \<Rightarrow> None | Some s1 \<Rightarrow> Some (active_compiled s1, s1))"
  by (auto simp: TestShaders_def)

lemma TestShaders_ready: "active_compiled s \<Longrightarrow> TestShaders env sched s = Some (True, s)"
  using active_compiled_no_null [of s] by (simp add: TestShaders_not_null loop_ready)

lemma TestShaders_conjunction:
  "TestShaders env sched s = Some (r, s') \<Longrightarrow> r = active_compiled s'"
proof (cases "s_last_geometry_shader_bytecode s = None \<or> s_last_pixel_shader_bytecode s = None
     \<or> s_last_vertex_shader_bytecode s = None")
  case True
  assume "TestShaders env sched s = Some (r, s')"
  with True have "r = False" "s' = s" by (simp_all add: TestShaders_null)
  with True active_compiled_no_null [of s] show ?thesis by blast
next
  case False
  assume "TestShaders env sched s = Some (r, s')"
  with False show ?thesis by (auto simp: TestShaders_not_null split: option.splits)
qed

lemma TestShaders_waits:
  assumes "TestShaders env sched s = Some (r, s')"
    and "\<not> g_ActiveConfig_bFullAsyncShaderCompilation env"
    and "\<not> (s_last_geometry_shader_bytecode s = None \<or> s_last_pixel_shader_bytecode s = None
     \<or> s_last_vertex_shader_bytecode s = None)"
  shows "r \<and> active_compiled s'"
proof -
  from assms(1,3) have l: "TestShaders_loop env sched 0 s = Some s'" and r: "r = active_compiled s'"
    by (auto simp: TestShaders_not_null split: option.splits)
  from loop_result_compiled [OF l] assms(2) r show ?thesis by simp
qed

section \<open>Theorems: TestShaders\<close>

text \<open>
  Claim C8 (amended). Whenever \<open>TestShaders\<close> returns, it returns the conjunction
  "all three active entries are set and compiled", taken in the state it returns in.
  It returns false at once, without draining, when an active entry pointer is null, and
  true at once, without draining, when all three active entries are already compiled.
  Otherwise, under the fully asynchronous configuration it drains once and returns the
  conjunction without waiting; under the waiting configuration it drains, yields and
  tests again, and when it returns it returns true with all three entries compiled.
\<close>

theorem TestShaders_result:
  "(TestShaders env sched s = Some (r, s') \<longrightarrow> r = active_compiled s')
   \<and> (g_ActiveConfig_bFullAsyncShaderCompilation env \<longrightarrow>
        TestShaders env sched s =
          (if s_last_geometry_shader_bytecode s = None \<or> s_last_pixel_shader_bytecode s = None
              \<or> s_last_vertex_shader_bytecode s = None
           then Some (False, s)
           else if active_compiled s then Some (True, s)
           else Some (active_compiled (ProcCompilationResults env s), ProcCompilationResults env s)))
   \<and> (\<not> g_ActiveConfig_bFullAsyncShaderCompilation env \<longrightarrow>
        (s_last_geometry_shader_bytecode s = None \<or> s_last_pixel_shader_bytecode s = None
           \<or> s_last_vertex_shader_bytecode s = None \<longrightarrow> TestShaders env sched s = Some (False, s))
        \<and> (active_compiled s \<longrightarrow> TestShaders env sched s = Some (True, s))
        \<and> (\<not> (s_last_geometry_shader_bytecode s = None \<or> s_last_pixel_shader_bytecode s = None
                \<or> s_last_vertex_shader_bytecode s = None)
             \<and> TestShaders env sched s = Some (r, s') \<longrightarrow> r \<and> active_compiled s')
        \<and> (\<not> active_compiled s \<longrightarrow>
             TestShaders_loop env sched count s =
               TestShaders_loop env sched (Suc count)
                 (cYield env sched count (ProcCompilationResults env s))))"
proof -
  have a: "TestShaders env sched s =
          (if s_last_geometry_shader_bytecode s = None \<or> s_last_pixel_shader_bytecode s = None
              \<or> s_last_vertex_shader_bytecode s = None
           then Some (False, s)
           else if active_compiled s then Some (True, s)
           else Some (active_compiled (ProcCompilationResults env s), ProcCompilationResults env s))"
    if async: "g_ActiveConfig_bFullAsyncShaderCompilation env"
  proof (cases "s_last_geometry_shader_bytecode s = None \<or> s_last_pixel_shader_bytecode s = None
              \<or> s_last_vertex_shader_bytecode s = None")
    case True
    then show ?thesis by (simp only: TestShaders_null if_True)
  next
    case nn: False
    show ?thesis
    proof (cases "active_compiled s")
      case True
      with nn show ?thesis by (simp only: TestShaders_ready if_True if_False)
    next
      case False
      have "TestShaders env sched s =
          (case TestShaders_loop env sched 0 s of None \<Rightarrow> None
           | Some s1 \<Rightarrow> Some (active_compiled s1, s1))"
        using nn by (rule TestShaders_not_null)
      also have "TestShaders_loop env sched 0 s = Some (ProcCompilationResults env s)"
        using False async by (rule loop_async)
      finally have e: "TestShaders env sched s =
          Some (active_compiled (ProcCompilationResults env s), ProcCompilationResults env s)"
        by (simp only: option.case)
      show ?thesis
        by (simp only: e nn False if_False)
    qed
  qed
  show ?thesis
    apply (intro conjI impI)
    subgoal by (rule TestShaders_conjunction)
    subgoal by (rule a)
    subgoal by (rule TestShaders_null)
    subgoal by (rule TestShaders_ready)
    subgoal by (elim conjE, frule (2) TestShaders_waits, elim conjE, assumption)
    subgoal by (elim conjE, frule (2) TestShaders_waits, elim conjE, assumption)
    subgoal by (rule loop_spin)
    done
qed

theorem TestShaders_full_async_no_drain:
  "g_ActiveConfig_bFullAsyncShaderCompilation (test_env False True)
   \<and> TestShaders (test_env False True) (\<lambda>n. 0) ready_state = Some (True, ready_state)
   \<and> finished ready_state \<noteq> []
   \<and> finished (ProcCompilationResults (test_env False True) ready_state) = []
   \<and> \<not> (\<exists>r. TestShaders (test_env False True) (\<lambda>n. 0) ready_state =
            Some (r, ProcCompilationResults (test_env False True) ready_state))"
proof -
  have 1: "g_ActiveConfig_bFullAsyncShaderCompilation (test_env False True)"
    by (simp add: test_env_def)
  have 2: "TestShaders (test_env False True) (\<lambda>n. 0) ready_state = Some (True, ready_state)"
    using ready_eval by (simp add: TestShaders_ready)
  have 3: "finished ready_state \<noteq> []"
    using ready_eval by simp
  have 4: "finished (ProcCompilationResults (test_env False True) ready_state) = []"
    by (rule Proc_finished)
  from 3 4 have "ProcCompilationResults (test_env False True) ready_state \<noteq> ready_state"
    by auto
  with 1 2 3 4 show ?thesis by simp
qed

theorem TestShaders_result_witness:
  "g_ActiveConfig_bFullAsyncShaderCompilation (test_env False True)
   \<and> \<not> active_compiled (compiler_thread (test_env False True) 2 (pending_state True))
   \<and> TestShaders (test_env False True) (\<lambda>n. 0) (compiler_thread (test_env False True) 2 (pending_state True))
       = Some (True, ProcCompilationResults (test_env False True)
                       (compiler_thread (test_env False True) 2 (pending_state True)))
   \<and> \<not> g_ActiveConfig_bFullAsyncShaderCompilation (test_env False False)
   \<and> \<not> active_compiled (pending_state False)
   \<and> TestShaders (test_env False False) (\<lambda>n. 2) (pending_state False)
       = Some (True,
           cYield (test_env False False) (\<lambda>n. 2) (Suc 0)
             (ProcCompilationResults (test_env False False)
               (cYield (test_env False False) (\<lambda>n. 2) 0
                 (ProcCompilationResults (test_env False False) (pending_state False)))))
   \<and> active_compiled
        (cYield (test_env False False) (\<lambda>n. 2) (Suc 0)
          (ProcCompilationResults (test_env False False)
            (cYield (test_env False False) (\<lambda>n. 2) 0
              (ProcCompilationResults (test_env False False) (pending_state False)))))"
proof -
  let ?A = "test_env False True" and ?S = "test_env False False"
  let ?a0 = "compiler_thread ?A 2 (pending_state True)"
  let ?w1 = "cYield ?S (\<lambda>n. 2) 0 (ProcCompilationResults ?S (pending_state False))"
  let ?w2 = "cYield ?S (\<lambda>n. 2) (Suc 0) (ProcCompilationResults ?S ?w1)"
  have fa: "g_ActiveConfig_bFullAsyncShaderCompilation ?A" "\<not> g_ActiveConfig_bFullAsyncShaderCompilation ?S"
    by (simp_all add: test_env_def)
  have pa: "s_last_geometry_shader_bytecode ?a0 \<noteq> None" "s_last_pixel_shader_bytecode ?a0 \<noteq> None"
    "s_last_vertex_shader_bytecode ?a0 \<noteq> None"
    using pending_eval [of True] by (simp_all add: compiler_thread_def)
  have ps: "\<not> (s_last_geometry_shader_bytecode (pending_state False) = None
      \<or> s_last_pixel_shader_bytecode (pending_state False) = None
      \<or> s_last_vertex_shader_bytecode (pending_state False) = None)"
    using pending_eval [of False] by simp
  have na: "\<not> active_compiled ?a0" and ya: "active_compiled (ProcCompilationResults ?A ?a0)"
    using pending_eval [of True] by simp_all
  have n0: "\<not> active_compiled (pending_state False)" and n1: "\<not> active_compiled ?w1"
    and y2: "active_compiled ?w2"
    using pending_eval [of False] by (simp_all add: active_compiled_cYield)
  have A: "TestShaders ?A (\<lambda>n. 0) ?a0 = Some (True, ProcCompilationResults ?A ?a0)"
    using TestShaders_result [of ?A "\<lambda>n. 0" ?a0 True "ProcCompilationResults ?A ?a0" 0] fa pa na ya
    by simp
  have l0: "TestShaders_loop ?S (\<lambda>n. 2) 0 (pending_state False) = TestShaders_loop ?S (\<lambda>n. 2) (Suc 0) ?w1"
    using TestShaders_result [of ?S "\<lambda>n. 2" "pending_state False" True ?w2 0] fa n0 by blast
  have l1: "TestShaders_loop ?S (\<lambda>n. 2) (Suc 0) ?w1 = TestShaders_loop ?S (\<lambda>n. 2) (Suc (Suc 0)) ?w2"
    by (rule loop_spin [OF n1 fa(2)])
  have l2: "TestShaders_loop ?S (\<lambda>n. 2) (Suc (Suc 0)) ?w2 = Some ?w2"
    by (rule loop_ready [OF y2])
  have S: "TestShaders ?S (\<lambda>n. 2) (pending_state False) = Some (True, ?w2)"
  proof -
    have "TestShaders ?S (\<lambda>n. 2) (pending_state False) =
          (case TestShaders_loop ?S (\<lambda>n. 2) 0 (pending_state False) of None \<Rightarrow> None
           | Some s1 \<Rightarrow> Some (active_compiled s1, s1))"
      using ps by (rule TestShaders_not_null)
    also have "TestShaders_loop ?S (\<lambda>n. 2) 0 (pending_state False) = Some ?w2"
      by (simp only: l0 l1 l2)
    finally show ?thesis
      using y2 by simp
  qed
  show ?thesis using fa na n0 A S y2 by blast
qed

end
